theory Spec2Isabelle
  imports Complex_Main "HOL-Library.Multiset" "HOL-Library.Log_Nat"
begin

section \<open>The memory card game engine of script.js\<close>

text \<open>
  The class \<open>MemoryGame\<close> of \<open>script.js\<close> keeps the whole session in the fields of one
  object and in three text nodes of the page that it reads back (\<open>timer\<close>, \<open>moves\<close>,
  \<open>score\<close>). The embedding passes that state explicitly. JavaScript numbers are modelled
  as \<open>int\<close> (all values are integers far below \<open>2^53\<close>), with \<open>rat\<close> where the source
  divides or multiplies a fraction; \<open>Date.now()\<close> is the argument \<open>now\<close> of every operation that reads the clock,
  and \<open>Math.random()\<close> is the argument \<open>rnd\<close> of every operation that shuffles.
  Class lists, modals and the pause button are rendering and are left out.
\<close>

subsection \<open>JavaScript values\<close>

text \<open>
  The values a numeric field of the session can hold. \<open>toNumber\<close> is the coercion of the
  arithmetic and relational operators: \<open>null\<close> is \<open>0\<close>, \<open>undefined\<close> is \<open>NaN\<close>
  (\<open>None\<close> here).
\<close>

datatype jsval = Null | Undefined | NaN | Num int

fun toNumber :: "jsval \<Rightarrow> int option" where
  "toNumber Null = Some 0"
| "toNumber Undefined = None"
| "toNumber NaN = None"
| "toNumber (Num n) = Some n"

text \<open>\<open>a - b\<close>, \<open>a > b\<close> and \<open>a <= b\<close> on such values; a comparison with \<open>NaN\<close> is false.\<close>

definition jsSub :: "jsval \<Rightarrow> jsval \<Rightarrow> jsval" where
  "jsSub a b = (case (toNumber a, toNumber b) of (Some x, Some y) \<Rightarrow> Num (x - y) | _ \<Rightarrow> NaN)"

definition jsGreater :: "jsval \<Rightarrow> jsval \<Rightarrow> bool" where
  "jsGreater a b = (case (toNumber a, toNumber b) of (Some x, Some y) \<Rightarrow> x > y | _ \<Rightarrow> False)"

definition jsLessEq :: "jsval \<Rightarrow> jsval \<Rightarrow> bool" where
  "jsLessEq a b = (case (toNumber a, toNumber b) of (Some x, Some y) \<Rightarrow> x \<le> y | _ \<Rightarrow> False)"

text \<open>The errors the engine can raise: both come from the runtime, the engine has none of its own.\<close>

datatype error = TypeError | SyntaxError

subsection \<open>Difficulty catalog\<close>

text \<open>
  A symbol is an emoji, written here as its Unicode code point
  (\<open>127919\<close> is U+1F3AF, the first symbol of every difficulty).
\<close>

type_synonym symbol = nat

record config =
  gridSize :: int
  pairs :: int
  timeLimit :: int
  symbols :: "symbol list"

definition easy :: config where
  "easy = \<lparr>gridSize = 4, pairs = 8, timeLimit = 300,
     symbols = [127919, 127922, 127914, 127912, 127917, 127918, 127925, 127928]\<rparr>"

definition medium :: config where
  "medium = \<lparr>gridSize = 4, pairs = 8, timeLimit = 240,
     symbols = [127919, 127922, 127914, 127912, 127917, 127918, 127925, 127928]\<rparr>"

definition hard :: config where
  "hard = \<lparr>gridSize = 6, pairs = 18, timeLimit = 300,
     symbols = [127919, 127922, 127914, 127912, 127917, 127918, 127925, 127928, 127930,
                127931, 129345, 127908, 127911, 127916, 127929, 127932, 127926, 128049]\<rparr>"

text \<open>
  \<open>this.difficultyConfigs[name]\<close> is a property read on an object literal. It finds the
  three own properties, and it also finds what every object inherits from
  \<open>Object.prototype\<close>: for those names the value is a function (or the prototype
  itself), an object without \<open>pairs\<close>, \<open>timeLimit\<close> or \<open>symbols\<close>. Any other name reads
  \<open>undefined\<close>.
\<close>

datatype lookup = Own config | Inherited | Missing

definition objectPrototypeProps :: "string list" where
  "objectPrototypeProps =
     [''constructor'', ''hasOwnProperty'', ''isPrototypeOf'', ''propertyIsEnumerable'',
      ''toLocaleString'', ''toString'', ''valueOf'', ''__proto__'',
      ''__defineGetter__'', ''__defineSetter__'', ''__lookupGetter__'', ''__lookupSetter__'']"

definition difficultyConfigs :: "string \<Rightarrow> lookup" where
  "difficultyConfigs name =
     (if name = ''easy'' then Own easy
      else if name = ''medium'' then Own medium
      else if name = ''hard'' then Own hard
      else if name \<in> set objectPrototypeProps then Inherited
      else Missing)"

subsection \<open>Cards and the deck builder\<close>

text \<open>
  A card's symbol is \<open>None\<close> when the source would store \<open>undefined\<close> (a read of
  \<open>config.symbols\<close> at an index that is not there).
\<close>

record card =
  cid :: nat
  symbol :: "symbol option"
  isFlipped :: bool
  isMatched :: bool

text \<open>\<open>config.symbols[i % config.symbols.length]\<close>: with no symbols the index is \<open>NaN\<close>.\<close>

definition symbolAt :: "symbol list \<Rightarrow> nat \<Rightarrow> symbol option" where
  "symbolAt syms i = (if length syms = 0 then None else Some (syms ! (i mod length syms)))"

text \<open>The first loop of \<open>shuffleCards\<close>: pair index \<open>i\<close> pushes its symbol twice.\<close>

function pushPairs :: "config \<Rightarrow> nat \<Rightarrow> symbol option list \<Rightarrow> symbol option list" where
  "pushPairs c i cardPairs =
     (if int i < pairs c
      then pushPairs c (Suc i)
             (cardPairs @ [symbolAt (symbols c) i, symbolAt (symbols c) i])
      else cardPairs)"
  by pat_completeness auto
termination
  by (relation "measure (\<lambda>(c, i, cardPairs). nat (pairs c) - i)") auto

declare pushPairs.simps [simp del]

text \<open>
  \<open>[cardPairs[i], cardPairs[j]] = [cardPairs[j], cardPairs[i]]\<close>: both reads happen
  before both writes.
\<close>

definition swapAt :: "nat \<Rightarrow> nat \<Rightarrow> 'a list \<Rightarrow> 'a list" where
  "swapAt i j xs = xs[i := xs ! j, j := xs ! i]"

text \<open>
  The product \<open>Math.random() * (i + 1)\<close> is a product of doubles: the exact product
  rounded to the nearest double, ties to the even significand. \<open>roundToDouble\<close> is that
  rounding for a value \<open>x\<close> with \<open>0 \<le> x < 2^1023\<close>, where nothing overflows; every such
  product is in that range. Doubles are multiples of \<open>2^-1074\<close>; below \<open>2^-1022\<close> that is
  their spacing, and from there on the spacing is such that the significand has 53 bits.
\<close>

definition roundHalfEven :: "rat \<Rightarrow> int" where
  "roundHalfEven q =
     (let f = \<lfloor>q\<rfloor>; d = q - of_int f
      in if d < 1 / 2 then f else if 1 / 2 < d then f + 1 else if even f then f else f + 1)"

definition roundToDouble :: "rat \<Rightarrow> rat" where
  "roundToDouble x =
     (let scaled = x * 2 ^ 1074
      in if scaled < 2 ^ 52 then of_int (roundHalfEven scaled) / 2 ^ 1074
         else let spacing = 2 ^ nat (bitlen \<lfloor>scaled\<rfloor> - 53)
              in of_int (roundHalfEven (scaled / spacing)) * spacing / 2 ^ 1074)"

text \<open>
  \<open>Math.floor(Math.random() * (i + 1))\<close>, where \<open>rnd i\<close> is what \<open>Math.random()\<close>
  returns in the iteration with index \<open>i\<close>: a double that is at least \<open>0\<close> and less than
  \<open>1\<close>, so at most \<open>1 - 2^-53\<close>, the largest double below \<open>1\<close>.
\<close>

definition drawIndex :: "(nat \<Rightarrow> rat) \<Rightarrow> nat \<Rightarrow> nat" where
  "drawIndex rnd i = nat \<lfloor>roundToDouble (rnd i * of_nat (i + 1))\<rfloor>"

text \<open>
  The second loop, \<open>for (let i = cardPairs.length - 1; i > 0; i--)\<close>, from index \<open>i\<close>
  downwards. An empty list starts at \<open>-1\<close> and a one-element list at \<open>0\<close>; neither
  iterates, as \<open>shuffleLoop rnd 0\<close>.
\<close>

fun shuffleLoop :: "(nat \<Rightarrow> rat) \<Rightarrow> nat \<Rightarrow> 'a list \<Rightarrow> 'a list" where
  "shuffleLoop rnd 0 cardPairs = cardPairs"
| "shuffleLoop rnd (Suc k) cardPairs =
     shuffleLoop rnd k (swapAt (Suc k) (drawIndex rnd (Suc k)) cardPairs)"

definition fisherYates :: "(nat \<Rightarrow> rat) \<Rightarrow> 'a list \<Rightarrow> 'a list" where
  "fisherYates rnd cardPairs = shuffleLoop rnd (length cardPairs - 1) cardPairs"

text \<open>\<open>cardPairs.map((symbol, index) => ({id: index, symbol, isFlipped: false, isMatched: false}))\<close>\<close>

definition makeCard :: "nat \<Rightarrow> symbol option \<Rightarrow> card" where
  "makeCard index s = \<lparr>cid = index, symbol = s, isFlipped = False, isMatched = False\<rparr>"

definition makeCards :: "symbol option list \<Rightarrow> card list" where
  "makeCards cardPairs = map (\<lambda>(index, s). makeCard index s) (enumerate 0 cardPairs)"

subsection \<open>Leaderboard entries and the persisted blob\<close>

text \<open>
  \<open>time\<close> is the text of the timer node, kept as the two numbers it renders (minutes and
  seconds); \<open>date\<close> is the clock value that \<open>new Date().toLocaleDateString()\<close> renders.
\<close>

record entry =
  score :: jsval
  time :: "int \<times> int"
  moves_e :: int
  difficulty :: string
  date :: int

text \<open>
  What \<open>JSON.parse\<close> returns for a valid JSON text: the entries when the text is a
  serialized leaderboard, and otherwise some other value (\<open>null\<close>, a number, a string,
  an object, an array of other things), which the model does not look into.
\<close>

datatype parsed = Entries "entry list" | Unexpected

text \<open>
  The text stored under the key \<open>memoryGameLeaderboard\<close>, represented by what
  \<open>JSON.parse\<close> makes of it: the empty text, a valid JSON text with its value, or a
  text that is not valid JSON.
\<close>

datatype blob = EmptyText | JsonText parsed | Malformed

text \<open>\<open>JSON.stringify\<close> writes \<open>NaN\<close> as \<open>null\<close>; \<open>stringified v\<close> is the value of the text written for \<open>v\<close>.\<close>

definition jsonEntry :: "entry \<Rightarrow> entry" where
  "jsonEntry e = e\<lparr>score := (case score e of NaN \<Rightarrow> Null | v \<Rightarrow> v)\<rparr>"

definition stringified :: "parsed \<Rightarrow> parsed" where
  "stringified v = (case v of Entries lb \<Rightarrow> Entries (map jsonEntry lb) | Unexpected \<Rightarrow> Unexpected)"

subsection \<open>The session\<close>

text \<open>
  Card objects live in \<open>heap\<close> and are named by their position in it, because the deck,
  the list of face-up cards and the pending callbacks all hold references to the same
  objects, and a new deck leaves the old objects alive in the callbacks that captured
  them. \<open>flippedCards\<close> keeps the \<open>card\<close> half of each \<open>{element, card}\<close> pair.

  \<open>intervals\<close> and \<open>timeouts\<close> are the browser's tables of live \<open>setInterval\<close> and
  pending \<open>setTimeout\<close> registrations, \<open>played\<close> is the log of \<open>playSound\<close> requests.
\<close>

datatype ticker = TimerTicker | LimitTicker

datatype callback = MatchReveal nat nat | FlipBack nat nat

record world =
  heap :: "card list"
  cards :: "nat list"
  flippedCards :: "nat list"
  matchedPairs :: int
  moves :: int
  startTime :: "int option"
  timerInterval :: "nat option"
  gameActive :: bool
  gamePaused :: bool
  pauseStartTime :: "int option"
  totalPauseTime :: int
  currentDifficulty :: string
  timeLimit_cur :: jsval
  timeLimitInterval :: "nat option"
  leaderboard :: parsed
  timerText :: "int \<times> int"
  movesText :: int
  scoreText :: jsval
  storage :: "blob option"
  intervals :: "(nat \<times> ticker) list"
  timeouts :: "(nat \<times> int \<times> callback) list"
  nextHandle :: nat
  played :: "string list"

text \<open>
  An operation either returns or throws; a throw keeps the writes made before it.
  \<open>Unmodelled w\<close> is the third possibility: in the state \<open>w\<close> the operation reads a
  leaderboard that is not an array of entries, and what it does from there depends on
  that value; the model does not follow it.
\<close>

datatype outcome = Done world | Threw error world | Unmodelled world

fun stateOf :: "outcome \<Rightarrow> world" where
  "stateOf (Done w) = w"
| "stateOf (Threw e w) = w"
| "stateOf (Unmodelled w) = w"

fun andThen :: "outcome \<Rightarrow> (world \<Rightarrow> outcome) \<Rightarrow> outcome" where
  "andThen (Done w) f = f w"
| "andThen (Threw e w) f = Threw e w"
| "andThen (Unmodelled w) f = Unmodelled w"

definition deck :: "world \<Rightarrow> card list" where
  "deck w = map (\<lambda>a. heap w ! a) (cards w)"

definition playSound :: "string \<Rightarrow> world \<Rightarrow> world" where
  "playSound soundName w = w\<lparr>played := played w @ [soundName]\<rparr>"

subsection \<open>shuffleCards\<close>

text \<open>
  Reading \<open>config.pairs\<close> throws when \<open>config\<close> is \<open>undefined\<close>, before anything is
  written. On an inherited property \<open>config.pairs\<close> is \<open>undefined\<close>, \<open>0 < undefined\<close> is
  false, and the deck is empty.
\<close>

definition shuffleCards :: "(nat \<Rightarrow> rat) \<Rightarrow> world \<Rightarrow> outcome" where
  "shuffleCards rnd w =
     (case difficultyConfigs (currentDifficulty w) of
        Missing \<Rightarrow> Threw TypeError w
      | Inherited \<Rightarrow> Done (w\<lparr>cards := []\<rparr>)
      | Own config \<Rightarrow>
          let cardPairs = fisherYates rnd (pushPairs config 0 []);
              base = length (heap w)
          in Done (w\<lparr>heap := heap w @ makeCards cardPairs,
                     cards := [base ..< base + length cardPairs]\<rparr>))"

subsection \<open>Timers\<close>

definition clearInterval :: "nat \<Rightarrow> world \<Rightarrow> world" where
  "clearInterval h w = w\<lparr>intervals := filter (\<lambda>(k, t). k \<noteq> h) (intervals w)\<rparr>"

definition setTimeout :: "callback \<Rightarrow> int \<Rightarrow> world \<Rightarrow> world" where
  "setTimeout cb delay w =
     w\<lparr>timeouts := timeouts w @ [(nextHandle w, delay, cb)], nextHandle := Suc (nextHandle w)\<rparr>"

definition startTimer :: "world \<Rightarrow> world" where
  "startTimer w =
     w\<lparr>intervals := intervals w @ [(nextHandle w, TimerTicker)],
       timerInterval := Some (nextHandle w),
       nextHandle := Suc (nextHandle w)\<rparr>"

definition startTimeLimit :: "world \<Rightarrow> outcome" where
  "startTimeLimit w =
     (case difficultyConfigs (currentDifficulty w) of
        Missing \<Rightarrow> Threw TypeError w
      | found \<Rightarrow>
          Done (w\<lparr>timeLimit_cur := (case found of Own config \<Rightarrow> Num (timeLimit config)
                                                  | _ \<Rightarrow> Undefined),
                   intervals := intervals w @ [(nextHandle w, LimitTicker)],
                   timeLimitInterval := Some (nextHandle w),
                   nextHandle := Suc (nextHandle w)\<rparr>))"

text \<open>A handle is truthy when it is neither \<open>null\<close> nor \<open>0\<close>.\<close>

definition stopTimer :: "world \<Rightarrow> world" where
  "stopTimer w =
     (let w1 = (case timerInterval w of
                  Some h \<Rightarrow> if h \<noteq> 0 then (clearInterval h w)\<lparr>timerInterval := None\<rparr> else w
                | None \<Rightarrow> w)
      in (case timeLimitInterval w1 of
            Some h \<Rightarrow> if h \<noteq> 0 then (clearInterval h w1)\<lparr>timeLimitInterval := None\<rparr> else w1
          | None \<Rightarrow> w1))"

definition startGame :: "int \<Rightarrow> world \<Rightarrow> outcome" where
  "startGame now w =
     (if \<not> gameActive w
      then startTimeLimit (startTimer (w\<lparr>gameActive := True, startTime := Some now\<rparr>))
      else Done w)"

text \<open>
  The callback of \<open>startTimer\<close>. \<open>%\<close> takes the sign of the dividend; \<open>null\<close> counts as
  \<open>0\<close> in the subtraction.
\<close>

definition jsRem :: "int \<Rightarrow> int \<Rightarrow> int" where
  "jsRem a b = sgn a * (\<bar>a\<bar> mod \<bar>b\<bar>)"

definition numberOf :: "int option \<Rightarrow> int" where
  "numberOf t = (case t of None \<Rightarrow> 0 | Some n \<Rightarrow> n)"

definition timerTick :: "int \<Rightarrow> world \<Rightarrow> world" where
  "timerTick now w =
     (let elapsed = now - numberOf (startTime w) - totalPauseTime w;
          minutes = elapsed div 60000;
          seconds = jsRem elapsed 60000 div 1000
      in w\<lparr>timerText := (minutes, seconds)\<rparr>)"

definition updateMovesDisplay :: "world \<Rightarrow> world" where
  "updateMovesDisplay w = w\<lparr>movesText := moves w\<rparr>"

subsection \<open>Scoring\<close>

definition updateScore :: "int \<Rightarrow> world \<Rightarrow> outcome" where
  "updateScore now w =
     (let timeElapsed = (of_int (now - numberOf (startTime w)) :: rat) / 1000
      in (case difficultyConfigs (currentDifficulty w) of
            Missing \<Rightarrow> Threw TypeError w
          | Inherited \<Rightarrow> Done (w\<lparr>scoreText := NaN\<rparr>)
          | Own config \<Rightarrow>
              let timeBonus = max 0 (of_int (timeLimit config) - timeElapsed);
                  moveBonus = max 0 (pairs config * 2 - moves w);
                  score = \<lfloor>of_int (matchedPairs w * 100) + timeBonus + of_int moveBonus\<rfloor>
              in Done (w\<lparr>scoreText := Num score\<rparr>)))"

subsection \<open>Leaderboard\<close>

definition checkHighScore :: "entry list \<Rightarrow> jsval \<Rightarrow> bool" where
  "checkHighScore lb s = (length lb < 5 \<or> jsGreater s (score (last lb)))"

text \<open>
  \<open>sort((a, b) => b.score - a.score)\<close>: a stable sort (ECMAScript 2019), a comparator
  result of \<open>NaN\<close> counts as \<open>0\<close>. With scores that are not all numbers the comparator is
  inconsistent and the order is left to the implementation; the model then keeps the
  order of a stable insertion.
\<close>

definition compareScore :: "entry \<Rightarrow> entry \<Rightarrow> int" where
  "compareScore a b = (case jsSub (score b) (score a) of Num d \<Rightarrow> d | _ \<Rightarrow> 0)"

fun insertEntry :: "entry \<Rightarrow> entry list \<Rightarrow> entry list" where
  "insertEntry x [] = [x]"
| "insertEntry x (y # ys) =
     (if compareScore x y \<le> 0 then x # y # ys else y # insertEntry x ys)"

definition sortEntries :: "entry list \<Rightarrow> entry list" where
  "sortEntries xs = foldr insertEntry xs []"

text \<open>
  \<open>saved ? JSON.parse(saved) : []\<close>: \<open>null\<close> and the empty text are falsy; a valid text
  gives its value, whatever it is; any other text makes \<open>JSON.parse\<close> throw.
\<close>

definition loadLeaderboard :: "blob option \<Rightarrow> error + parsed" where
  "loadLeaderboard saved =
     (case saved of
        None \<Rightarrow> Inr (Entries [])
      | Some EmptyText \<Rightarrow> Inr (Entries [])
      | Some (JsonText v) \<Rightarrow> Inr v
      | Some Malformed \<Rightarrow> Inl SyntaxError)"

definition saveLeaderboard :: "world \<Rightarrow> world" where
  "saveLeaderboard w = w\<lparr>storage := Some (JsonText (stringified (leaderboard w)))\<rparr>"

definition saveToLeaderboard :: "int \<Rightarrow> jsval \<Rightarrow> int \<times> int \<Rightarrow> int \<Rightarrow> world \<Rightarrow> outcome" where
  "saveToLeaderboard now s t m w =
     (let e = \<lparr>score = s, time = t, moves_e = m,
               difficulty = currentDifficulty w, date = now\<rparr>
      in case leaderboard w of
           Unexpected \<Rightarrow> Unmodelled w
         | Entries lb \<Rightarrow>
             let pushed = lb @ [e];
                 sorted = sortEntries pushed
             in Done (saveLeaderboard (w\<lparr>leaderboard := Entries (take 5 sorted)\<rparr>)))"

subsection \<open>End of game and reset\<close>

text \<open>\<open>parseInt\<close> of the score node's text: the text of a number reads back as that number.\<close>

definition parseInt :: "jsval \<Rightarrow> jsval" where
  "parseInt text = (case text of Num n \<Rightarrow> Num n | _ \<Rightarrow> NaN)"

definition endGame :: "bool \<Rightarrow> int \<Rightarrow> world \<Rightarrow> outcome" where
  "endGame timeUp now w =
     (let w1 = stopTimer (w\<lparr>gameActive := False\<rparr>);
          w2 = (if \<not> timeUp then playSound ''complete'' w1 else w1);
          finalScore = parseInt (scoreText w2)
      in case leaderboard w2 of
           Unexpected \<Rightarrow> Unmodelled w2
         | Entries lb \<Rightarrow>
             let isHighScore = checkHighScore lb finalScore;
                 finalTime = timerText w2;
                 finalMoves = moves w2
             in if isHighScore then saveToLeaderboard now finalScore finalTime finalMoves w2
                else Done w2)"

text \<open>The callback of \<open>startTimeLimit\<close>: \<open>this.timeLimit--\<close>, then the test \<open><= 0\<close>.\<close>

definition limitTick :: "int \<Rightarrow> world \<Rightarrow> outcome" where
  "limitTick now w =
     (let w1 = w\<lparr>timeLimit_cur := jsSub (timeLimit_cur w) (Num 1)\<rparr>
      in if jsLessEq (timeLimit_cur w1) (Num 0) then endGame True now w1 else Done w1)"

definition resetStats :: "world \<Rightarrow> world" where
  "resetStats w =
     stopTimer (w\<lparr>moves := 0, matchedPairs := 0, flippedCards := [],
                  gameActive := False, gamePaused := False,
                  startTime := None, pauseStartTime := None, totalPauseTime := 0,
                  timeLimit_cur := Null,
                  timerText := (0, 0), movesText := 0, scoreText := Num 0\<rparr>)"

text \<open>
  \<open>createCardGrid\<close> and \<open>hideModal\<close> only rebuild the page, so \<open>resetGame\<close> is
  \<open>resetStats\<close>, and the other two stop where \<open>shuffleCards\<close> throws.
\<close>

definition changeDifficulty :: "string \<Rightarrow> (nat \<Rightarrow> rat) \<Rightarrow> world \<Rightarrow> outcome" where
  "changeDifficulty name rnd w =
     shuffleCards rnd (resetStats (w\<lparr>currentDifficulty := name\<rparr>))"

definition newGame :: "(nat \<Rightarrow> rat) \<Rightarrow> world \<Rightarrow> outcome" where
  "newGame rnd w = shuffleCards rnd (resetStats w)"

definition resetGame :: "world \<Rightarrow> world" where
  "resetGame w = resetStats w"

subsection \<open>Flipping and pair evaluation\<close>

text \<open>Writing a flag of the card object at address \<open>a\<close>.\<close>

definition setFlipped :: "bool \<Rightarrow> nat \<Rightarrow> world \<Rightarrow> world" where
  "setFlipped b a w = w\<lparr>heap := (heap w)[a := (heap w ! a)\<lparr>isFlipped := b\<rparr>]\<rparr>"

definition setMatched :: "bool \<Rightarrow> nat \<Rightarrow> world \<Rightarrow> world" where
  "setMatched b a w = w\<lparr>heap := (heap w)[a := (heap w ! a)\<lparr>isMatched := b\<rparr>]\<rparr>"

text \<open>
  \<open>const [card1, card2] = this.flippedCards\<close> leaves a name \<open>undefined\<close> when the list
  is shorter, and the read of \<open>card1.card\<close> or \<open>card2.card\<close> then throws. The same is
  written for an address that names no object, which no caller passes.
\<close>

definition flipBackDelay :: "string \<Rightarrow> int" where
  "flipBackDelay d = (if d = ''easy'' then 1000 else if d = ''hard'' then 600 else 750)"

definition checkForMatch :: "world \<Rightarrow> outcome" where
  "checkForMatch w =
     (case flippedCards w of
        card1 # card2 # rest \<Rightarrow>
          if card1 < length (heap w) \<and> card2 < length (heap w)
          then if symbol (heap w ! card1) = symbol (heap w ! card2)
               then Done (setTimeout (MatchReveal card1 card2) 500 (playSound ''match'' w))
               else Done (setTimeout (FlipBack card1 card2)
                            (flipBackDelay (currentDifficulty w)) w)
          else Threw TypeError w
      | _ \<Rightarrow> Threw TypeError w)"

definition flipCard :: "int \<Rightarrow> nat \<Rightarrow> world \<Rightarrow> outcome" where
  "flipCard now cardRef w =
     andThen (if \<not> gameActive w then startGame now w else Done w) (\<lambda>w1.
       if gamePaused w1 then Done w1
       else if \<not> cardRef < length (heap w1) then Threw TypeError w1
       else if isFlipped (heap w1 ! cardRef) \<or> isMatched (heap w1 ! cardRef)
               \<or> length (flippedCards w1) \<ge> 2 then Done w1
       else
         let w2 = playSound ''flip'' w1;
             w3 = setFlipped True cardRef w2;
             w4 = w3\<lparr>flippedCards := flippedCards w3 @ [cardRef]\<rparr>
         in if length (flippedCards w4) = 2
            then checkForMatch (updateMovesDisplay (w4\<lparr>moves := moves w4 + 1\<rparr>))
            else Done w4)"

text \<open>The two callbacks that \<open>checkForMatch\<close> schedules, run at the time \<open>now\<close>.\<close>

definition matchReveal :: "int \<Rightarrow> nat \<Rightarrow> nat \<Rightarrow> world \<Rightarrow> outcome" where
  "matchReveal now card1 card2 w =
     (let w1 = setMatched True card2 (setMatched True card1 w);
          w2 = w1\<lparr>matchedPairs := matchedPairs w1 + 1\<rparr>;
          w3 = w2\<lparr>flippedCards := []\<rparr>
      in andThen (updateScore now w3) (\<lambda>w4.
           case difficultyConfigs (currentDifficulty w4) of
             Own config \<Rightarrow>
               if matchedPairs w4 = pairs config then endGame False now w4 else Done w4
           | Inherited \<Rightarrow> Done w4
           | Missing \<Rightarrow> Threw TypeError w4))"

definition flipBack :: "nat \<Rightarrow> nat \<Rightarrow> world \<Rightarrow> world" where
  "flipBack card1 card2 w =
     (let w1 = setFlipped False card2 (setFlipped False card1 w)
      in w1\<lparr>flippedCards := []\<rparr>)"

subsection \<open>Pause and resume\<close>

definition pauseGame :: "int \<Rightarrow> world \<Rightarrow> world" where
  "pauseGame now w =
     (if \<not> gameActive w \<or> gamePaused w then w
      else stopTimer (w\<lparr>gamePaused := True, pauseStartTime := Some now\<rparr>))"

text \<open>\<open>if (this.pauseStartTime)\<close> is false for \<open>null\<close> and for the number \<open>0\<close>.\<close>

definition resumeGame :: "int \<Rightarrow> world \<Rightarrow> outcome" where
  "resumeGame now w =
     (if \<not> gamePaused w then Done w
      else
        let w1 = w\<lparr>gamePaused := False\<rparr>;
            w2 = (case pauseStartTime w1 of
                    Some p \<Rightarrow>
                      if p \<noteq> 0
                      then w1\<lparr>totalPauseTime := totalPauseTime w1 + (now - p),
                              pauseStartTime := None\<rparr>
                      else w1
                  | None \<Rightarrow> w1)
        in startTimeLimit (startTimer w2))"

subsection \<open>The constructor and the event loop\<close>

text \<open>
  \<open>new MemoryGame()\<close> reads the leaderboard first; when that throws no game exists.
  Handles of timers are positive.
\<close>

definition newMemoryGame :: "(nat \<Rightarrow> rat) \<Rightarrow> blob option \<Rightarrow> error + world" where
  "newMemoryGame rnd saved =
     (case loadLeaderboard saved of
        Inl e \<Rightarrow> Inl e
      | Inr lb \<Rightarrow>
          let w = \<lparr>heap = [], cards = [], flippedCards = [], matchedPairs = 0, moves = 0,
                   startTime = None, timerInterval = None, gameActive = False,
                   gamePaused = False, pauseStartTime = None, totalPauseTime = 0,
                   currentDifficulty = ''medium'', timeLimit_cur = Null,
                   timeLimitInterval = None, leaderboard = lb,
                   timerText = (0, 0), movesText = 0, scoreText = Num 0,
                   storage = saved, intervals = [], timeouts = [], nextHandle = 1,
                   played = []\<rparr>
          in (case shuffleCards rnd w of
                Done w1 \<Rightarrow> Inr (resetStats w1)
              | Threw e w1 \<Rightarrow> Inl e
              | Unmodelled w1 \<Rightarrow> Inr w1))"

text \<open>
  What the page can make the engine do: a click on a card of the current grid, the
  buttons and keys, a live interval firing, a pending timeout firing (which removes
  it). An exception ends the handler and leaves the session as it was at the throw.
  \<open>run\<close> follows a session through a list of such events, each with its clock value,
  and stops where the model does not follow the session.
\<close>

datatype event =
    Flip nat
  | Pause
  | Resume
  | New "nat \<Rightarrow> rat"
  | Reset
  | Change string "nat \<Rightarrow> rat"
  | Interval nat
  | Timeout nat

definition runCallback :: "int \<Rightarrow> callback \<Rightarrow> world \<Rightarrow> outcome" where
  "runCallback now cb w =
     (case cb of
        MatchReveal card1 card2 \<Rightarrow> matchReveal now card1 card2 w
      | FlipBack card1 card2 \<Rightarrow> Done (flipBack card1 card2 w))"

definition step :: "int \<Rightarrow> event \<Rightarrow> world \<Rightarrow> outcome" where
  "step now ev w =
     (case ev of
        Flip a \<Rightarrow> if a \<in> set (cards w) then flipCard now a w else Done w
      | Pause \<Rightarrow> Done (pauseGame now w)
      | Resume \<Rightarrow> resumeGame now w
      | New rnd \<Rightarrow> newGame rnd w
      | Reset \<Rightarrow> Done (resetGame w)
      | Change name rnd \<Rightarrow> changeDifficulty name rnd w
      | Interval h \<Rightarrow>
          (case map_of (intervals w) h of
             None \<Rightarrow> Done w
           | Some TimerTicker \<Rightarrow> Done (timerTick now w)
           | Some LimitTicker \<Rightarrow> limitTick now w)
      | Timeout h \<Rightarrow>
          (case map_of (timeouts w) h of
             None \<Rightarrow> Done w
           | Some (delay, cb) \<Rightarrow>
               runCallback now cb (w\<lparr>timeouts := filter (\<lambda>(k, d). k \<noteq> h) (timeouts w)\<rparr>)))"

fun run :: "(int \<times> event) list \<Rightarrow> world \<Rightarrow> world" where
  "run [] w = w"
| "run ((now, ev) # rest) w =
     (case step now ev w of
        Unmodelled w' \<Rightarrow> w'
      | returned \<Rightarrow> run rest (stateOf returned))"

subsection \<open>A concrete game\<close>

text \<open>
  \<open>Math.random()\<close> returning the largest double below \<open>1\<close> every time: each draw is
  \<open>j = i\<close> and every position stays in place. The medium game that \<open>new MemoryGame()\<close>
  builds from these draws with nothing persisted: the cards at addresses \<open>2k\<close> and
  \<open>2k + 1\<close> form a pair.
\<close>

definition identityDraws :: "nat \<Rightarrow> rat" where
  "identityDraws i = 1 - 1 / 2 ^ 53"


definition mediumCards :: "card list" where
  "mediumCards = map (\<lambda>(i, s). makeCard i (Some s))
     [(0, 127919), (1, 127919), (2, 127922), (3, 127922), (4, 127914), (5, 127914),
      (6, 127912), (7, 127912), (8, 127917), (9, 127917), (10, 127918), (11, 127918),
      (12, 127925), (13, 127925), (14, 127928), (15, 127928)]"

definition freshGame :: world where
  "freshGame =
     \<lparr>heap = mediumCards,
      cards = [0, 1, 2, 3, 4, 5, 6, 7, 8, 9, 10, 11, 12, 13, 14, 15],
      flippedCards = [], matchedPairs = 0, moves = 0,
      startTime = None, timerInterval = None, gameActive = False,
      gamePaused = False, pauseStartTime = None, totalPauseTime = 0,
      currentDifficulty = ''medium'', timeLimit_cur = Null,
      timeLimitInterval = None, leaderboard = Entries [],
      timerText = (0, 0), movesText = 0, scoreText = Num 0,
      storage = None, intervals = [], timeouts = [], nextHandle = 1,
      played = []\<rparr>"

text \<open>A leaderboard loaded from storage, with the scores 1500, 1000 and 500.\<close>

definition scored :: "int \<Rightarrow> entry" where
  "scored n = \<lparr>score = Num n, time = (1, 30), moves_e = 15, difficulty = ''medium'', date = 0\<rparr>"

definition rankedGame :: world where
  "rankedGame = freshGame\<lparr>leaderboard := Entries (map scored [1500, 1000, 500]),
                            storage := Some (JsonText (Entries (map scored [1500, 1000, 500])))\<rparr>"

text \<open>A full leaderboard, with the scores 1500, 1200, 1000, 500 and 300.\<close>

definition crowdedGame :: world where
  "crowdedGame =
     freshGame\<lparr>leaderboard := Entries (map scored [1500, 1200, 1000, 500, 300]),
               storage := Some (JsonText (Entries (map scored [1500, 1200, 1000, 500, 300])))\<rparr>"

text \<open>
  The first card is turned and the game is reset before a second card is turned: the
  session is idle again, and the card object still says that it is face up.
\<close>

definition resetWithCardUp :: world where
  "resetWithCardUp = run [(1000, Flip 0), (2000, Reset)] freshGame"

text \<open>A running game with the first card turned.\<close>

definition oneCardUp :: world where
  "oneCardUp = run [(1000, Flip 0)] freshGame"

text \<open>
  Two cards turned in a running game: the two cards of the first pair, or one card of
  each of the first two pairs.
\<close>

definition pairUp :: world where
  "pairUp = run [(1000, Flip 0), (2000, Flip 1)] freshGame"

definition mixedUp :: world where
  "mixedUp = run [(1000, Flip 0), (2000, Flip 2)] freshGame"

text \<open>
  The same two sessions at the call of \<open>checkForMatch\<close>: the second card is turned and
  the move counted, nothing is scheduled yet and no match signal is emitted yet.
\<close>

definition pairAtCheck :: world where
  "pairAtCheck = pairUp\<lparr>timeouts := [], nextHandle := 3, played := [''flip'', ''flip'']\<rparr>"

definition mixedAtCheck :: world where
  "mixedAtCheck = mixedUp\<lparr>timeouts := [], nextHandle := 3\<rparr>"

text \<open>A running game after three ticks of the countdown.\<close>

definition tickedGame :: world where
  "tickedGame =
     run [(1000, Flip 0), (2000, Interval 2), (3000, Interval 2), (4000, Interval 2)] freshGame"

text \<open>
  A running game in which seven pairs have been matched and the two cards of the last
  pair have just been turned: their reveal is pending under the handle \<open>10\<close>.
\<close>

definition lastPairUp :: world where
  "lastPairUp =
     run [(1000, Flip 0), (2000, Flip 1), (2500, Timeout 3),
          (3000, Flip 2), (4000, Flip 3), (4500, Timeout 4),
          (5000, Flip 4), (6000, Flip 5), (6500, Timeout 5),
          (7000, Flip 6), (8000, Flip 7), (8500, Timeout 6),
          (9000, Flip 8), (10000, Flip 9), (10500, Timeout 7),
          (11000, Flip 10), (12000, Flip 11), (12500, Timeout 8),
          (13000, Flip 12), (14000, Flip 13), (14500, Timeout 9),
          (15000, Flip 14), (16000, Flip 15)] freshGame"

text \<open>That session at the call of \<open>checkForMatch\<close> for the last pair.\<close>

definition lastPairAtCheck :: world where
  "lastPairAtCheck =
     lastPairUp\<lparr>timeouts := [], nextHandle := 10, played := butlast (played lastPairUp)\<rparr>"

section \<open>Properties\<close>

subsection \<open>Rounding to a double\<close>

lemma floor_rat_numeral [simp]:
  "\<lfloor>(numeral a :: rat) / numeral b\<rfloor> = numeral a div numeral b"
  using floor_divide_of_int_eq [of "numeral a" "numeral b", where ?'a = rat] by simp

lemma roundHalfEven_of_int: "roundHalfEven (of_int M) = M"
  by (simp add: roundHalfEven_def)

lemma roundHalfEven_ge: "of_int M \<le> q \<Longrightarrow> M \<le> roundHalfEven q"
proof -
  assume "of_int M \<le> q"
  then have "M \<le> \<lfloor>q\<rfloor>" by (simp add: le_floor_iff)
  then show ?thesis by (simp add: roundHalfEven_def Let_def)
qed

lemma roundHalfEven_le: "q \<le> of_int M \<Longrightarrow> roundHalfEven q \<le> M"
proof (cases "q = of_int M")
  case True
  then show ?thesis by (simp add: roundHalfEven_of_int)
next
  case False
  assume "q \<le> of_int M"
  with False have "q < of_int M" by simp
  then have "\<lfloor>q\<rfloor> < M" by (simp add: floor_less_iff)
  then show ?thesis by (simp add: roundHalfEven_def Let_def)
qed

lemma roundHalfEven_below_half:
  assumes "q < of_int M - 1 / 2"
  shows "roundHalfEven q \<le> M - 1"
proof -
  have f: "of_int \<lfloor>q\<rfloor> \<le> q" by simp
  with assms have "of_int \<lfloor>q\<rfloor> < (of_int M :: rat)" by linarith
  then have lt: "\<lfloor>q\<rfloor> < M" by (simp only: of_int_less_iff)
  show ?thesis
  proof (cases "q - of_int \<lfloor>q\<rfloor> < 1 / 2")
    case True
    then show ?thesis using lt by (simp add: roundHalfEven_def Let_def)
  next
    case False
    with assms have "of_int \<lfloor>q\<rfloor> < (of_int (M - 1) :: rat)" by simp
    then have "\<lfloor>q\<rfloor> < M - 1" by (simp only: of_int_less_iff)
    then show ?thesis by (simp add: roundHalfEven_def Let_def)
  qed
qed

lemma bitlen_floor_bounds:
  fixes X :: rat
  assumes "1 \<le> X"
  shows "2 ^ nat (bitlen \<lfloor>X\<rfloor> - 1) \<le> X" and "X < 2 ^ nat (bitlen \<lfloor>X\<rfloor>)"
proof -
  have pos: "0 < \<lfloor>X\<rfloor>" using assms by simp
  from bitlen_bounds [OF pos]
  have a: "2 ^ nat (bitlen \<lfloor>X\<rfloor> - 1) \<le> \<lfloor>X\<rfloor>" and b: "\<lfloor>X\<rfloor> < 2 ^ nat (bitlen \<lfloor>X\<rfloor>)"
    by simp_all
  show "2 ^ nat (bitlen \<lfloor>X\<rfloor> - 1) \<le> X"
    using a by (simp add: le_floor_iff)
  show "X < 2 ^ nat (bitlen \<lfloor>X\<rfloor>)"
    using b by (simp add: floor_less_iff)
qed

text \<open>
  The rounding of \<open>x\<close> is the rounding of \<open>x * 2^t\<close> to an integer, for the \<open>t\<close> that gives
  53 bits, or \<open>t = 1074\<close> when that would need a larger one.
\<close>

lemma roundToDouble_scaled:
  assumes "0 \<le> x" and "x < 2 ^ 53"
  shows "\<exists>t \<le> 1074. roundToDouble x = of_int (roundHalfEven (x * 2 ^ t)) / 2 ^ t
           \<and> (t = 1074 \<or> 2 ^ 52 \<le> x * 2 ^ t) \<and> x * 2 ^ t < 2 ^ 53"
proof (cases "x * 2 ^ 1074 < 2 ^ 52")
  case True
  have "(2::rat) ^ 52 \<le> 2 ^ 53" by (rule power_increasing) simp_all
  with True have "x * 2 ^ 1074 < 2 ^ 53" by simp
  with True show ?thesis
    by (intro exI [of _ 1074]) (simp add: roundToDouble_def Let_def del: power_numeral)
next
  case False
  define X where "X = x * 2 ^ 1074"
  define b where "b = nat (bitlen \<lfloor>X\<rfloor>)"
  have big: "(2::rat) ^ 52 \<le> X" using False by (simp add: X_def)
  have "(1::rat) \<le> 2 ^ 52" by (rule one_le_power) simp
  with big have one: "1 \<le> X" by simp
  have Xlt: "X < 2 ^ 1127"
  proof -
    have "x * 2 ^ 1074 < 2 ^ 53 * (2::rat) ^ 1074"
      using assms(2) by (simp only: mult_less_cancel_right_pos zero_less_power zero_less_numeral)
    also have "\<dots> = 2 ^ 1127" by (simp only: power_add [symmetric]) simp
    finally show ?thesis by (simp add: X_def)
  qed
  have lo: "2 ^ nat (bitlen \<lfloor>X\<rfloor> - 1) \<le> X" and hi: "X < 2 ^ b"
    using bitlen_floor_bounds [OF one] by (simp_all add: b_def)
  have "(2::rat) ^ 52 < 2 ^ b" using big hi by simp
  then have "52 < b" by (rule power_less_imp_less_exp [rotated]) simp
  then have b53: "53 \<le> b" by simp
  then have nat1: "nat (bitlen \<lfloor>X\<rfloor> - 1) = b - 1" and nat53: "nat (bitlen \<lfloor>X\<rfloor> - 53) = b - 53"
    by (simp_all add: b_def)
  have "(2::rat) ^ (b - 1) < 2 ^ 1127" using lo Xlt by (simp add: nat1)
  then have "b - 1 < 1127" by (rule power_less_imp_less_exp [rotated]) simp
  then have b1127: "b \<le> 1127" by simp
  define t where "t = 1127 - b"
  have t: "t \<le> 1074" "1074 = t + (b - 53)" "b - 1 = 52 + (b - 53)" "b = 53 + (b - 53)"
    using b53 b1127 by (simp_all add: t_def)
  define U where "U = (2::rat) ^ (b - 53)"
  have U: "0 < U" by (simp add: U_def)
  have P: "(2::rat) ^ 1074 = 2 ^ t * U"
    by (subst t(2)) (simp only: power_add U_def)
  have q: "X / U = x * 2 ^ t"
    unfolding X_def P using U by simp
  have "(2::rat) ^ 52 * U \<le> X"
    using lo by (simp only: nat1 U_def power_add [symmetric] t(3) [symmetric])
  then have q_lo: "2 ^ 52 \<le> x * 2 ^ t"
    using U by (simp add: q [symmetric] pos_le_divide_eq)
  have "X < 2 ^ 53 * U"
    using hi by (simp only: U_def power_add [symmetric] t(4) [symmetric])
  then have q_hi: "x * 2 ^ t < 2 ^ 53"
    using U by (simp add: q [symmetric] pos_divide_less_eq)
  have "roundToDouble x = of_int (roundHalfEven (X / U)) * U / 2 ^ 1074"
    using False by (simp add: roundToDouble_def Let_def X_def [symmetric] nat53 U_def del: power_numeral)
  also have "\<dots> = of_int (roundHalfEven (x * 2 ^ t)) / 2 ^ t"
    unfolding q P using U by simp
  finally show ?thesis
    using t(1) q_lo q_hi by (intro exI [of _ t]) simp
qed


text \<open>Rounding does not cross an integer, and stays below one it is half a unit away from.\<close>

lemma roundToDouble_ge:
  assumes "0 \<le> x" and "x < 2 ^ 53" and "of_int J \<le> x"
  shows "of_int J \<le> roundToDouble x"
proof -
  from roundToDouble_scaled [OF assms(1,2)]
  obtain t where t: "roundToDouble x = of_int (roundHalfEven (x * 2 ^ t)) / 2 ^ t"
    by blast
  have "of_int (J * 2 ^ t) \<le> x * 2 ^ t" using assms(3) by simp
  then have "J * 2 ^ t \<le> roundHalfEven (x * 2 ^ t)" by (rule roundHalfEven_ge)
  then have "(of_int (J * 2 ^ t) :: rat) \<le> of_int (roundHalfEven (x * 2 ^ t))"
    by (simp only: of_int_le_iff)
  then show ?thesis unfolding t by (simp add: pos_le_divide_eq)
qed

lemma roundToDouble_le:
  assumes "0 \<le> x" and "x < 2 ^ 53" and "x \<le> of_int J"
  shows "roundToDouble x \<le> of_int J"
proof -
  from roundToDouble_scaled [OF assms(1,2)]
  obtain t where t: "roundToDouble x = of_int (roundHalfEven (x * 2 ^ t)) / 2 ^ t"
    by blast
  have "x * 2 ^ t \<le> of_int (J * 2 ^ t)" using assms(3) by simp
  then have "roundHalfEven (x * 2 ^ t) \<le> J * 2 ^ t" by (rule roundHalfEven_le)
  then have "(of_int (roundHalfEven (x * 2 ^ t)) :: rat) \<le> of_int (J * 2 ^ t)"
    by (simp only: of_int_le_iff)
  then show ?thesis unfolding t by (simp add: pos_divide_le_eq)
qed

lemma scaled_below:
  assumes "roundToDouble x = of_int (roundHalfEven (x * 2 ^ t)) / 2 ^ t"
    and "x * 2 ^ t < of_int J * 2 ^ t - 1 / 2"
  shows "roundToDouble x < of_int J"
proof -
  have "x * 2 ^ t < of_int (J * 2 ^ t) - 1 / 2" using assms(2) by simp
  then have "roundHalfEven (x * 2 ^ t) \<le> J * 2 ^ t - 1" by (rule roundHalfEven_below_half)
  then have "roundHalfEven (x * 2 ^ t) < J * 2 ^ t" by simp
  then have "(of_int (roundHalfEven (x * 2 ^ t)) :: rat) < of_int (J * 2 ^ t)"
    by (simp only: of_int_less_iff)
  then show ?thesis unfolding assms(1) by (simp add: pos_divide_less_eq)
qed


text \<open>
  A product of a double below \<open>1\<close> and a positive integer \<open>n\<close> rounds to less than
  \<open>n\<close>: the exact product is at least \<open>n * 2^-53\<close> below \<open>n\<close>, which is more than half
  the spacing of the doubles there.
\<close>

lemma roundToDouble_below:
  fixes n :: nat
  assumes "0 \<le> r" and "r \<le> 1 - 1 / 2 ^ 53" and "1 \<le> n" and "n \<le> 2 ^ 53"
  shows "roundToDouble (r * of_nat n) < of_nat n"
proof -
  define x where "x = r * of_nat n"
  have x0: "0 \<le> x" using assms(1) by (simp add: x_def)
  have "x \<le> (1 - 1 / 2 ^ 53) * of_nat n"
    unfolding x_def using assms(2) by (rule mult_right_mono) simp
  then have xle: "x \<le> of_nat n - of_nat n / 2 ^ 53" by (simp add: algebra_simps)
  have npos: "(0::rat) < of_nat n" using assms(3) by simp
  have "(of_nat n :: rat) \<le> of_nat (2 ^ 53)" using assms(4) by (simp only: of_nat_le_iff)
  then have nle: "(of_nat n :: rat) \<le> 2 ^ 53" by simp
  have "x < of_nat n" using xle npos by (simp add: field_simps) 
  with nle have xlt: "x < 2 ^ 53" by simp
  from roundToDouble_scaled [OF x0 xlt]
  obtain t where t: "t \<le> 1074" "roundToDouble x = of_int (roundHalfEven (x * 2 ^ t)) / 2 ^ t"
    "t = 1074 \<or> 2 ^ 52 \<le> x * 2 ^ t"
    by blast
  have "roundToDouble x < of_int (int n)"
  proof (cases "2 ^ 52 \<le> x * 2 ^ t")
    case True
    define N where "N = (of_nat n :: rat) * 2 ^ t"
    have "x * 2 ^ t \<le> (of_nat n - of_nat n / 2 ^ 53) * 2 ^ t"
      using xle by (simp only: mult_le_cancel_right_pos zero_less_power zero_less_numeral)
    then have le: "x * 2 ^ t \<le> N - N / 2 ^ 53" by (simp add: N_def algebra_simps)
    have Npos: "0 < N" using npos by (simp add: N_def)
    then have "0 < N / 2 ^ 53" by simp
    with le True have "2 ^ 52 < N" by linarith
    then have "1 / 2 < N / 2 ^ 53" by (simp add: field_simps)
    with le have "x * 2 ^ t < N - 1 / 2" by linarith
    then have "x * 2 ^ t < of_int (int n) * 2 ^ t - 1 / 2" by (simp add: N_def)
    then show ?thesis by (rule scaled_below [OF t(2)])
  next
    case False
    with t(3) have t1074: "t = 1074" by simp
    from False have "x * 2 ^ t \<le> of_int (2 ^ 52)" by simp
    then have "roundHalfEven (x * 2 ^ t) \<le> 2 ^ 52" by (rule roundHalfEven_le)
    then have "(of_int (roundHalfEven (x * 2 ^ t)) :: rat) \<le> of_int (2 ^ 52)"
      by (simp only: of_int_le_iff)
    then have "(of_int (roundHalfEven (x * 2 ^ t)) :: rat) \<le> 2 ^ 52" by simp
    moreover have "(2::rat) ^ 52 < 2 ^ t"
      unfolding t1074 by (rule power_strict_increasing) simp_all
    ultimately have "(of_int (roundHalfEven (x * 2 ^ t)) :: rat) < 2 ^ t"
      by (rule le_less_trans)
    then have "of_int (roundHalfEven (x * 2 ^ t)) / 2 ^ t < (1::rat)"
      by (simp only: pos_divide_less_eq zero_less_power zero_less_numeral mult_1)
    then have "roundToDouble x < 1" by (simp only: t(2))
    also have "(1::rat) \<le> of_int (int n)" using assms(3) by simp
    finally show ?thesis .
  qed
  then show ?thesis by (simp add: x_def)
qed



subsection \<open>The drawn index\<close>

lemma drawIndex_le:
  assumes "0 \<le> rnd i" and "rnd i \<le> 1 - 1 / 2 ^ 53" and "i < 2 ^ 53"
  shows "drawIndex rnd i \<le> i"
proof -
  have "roundToDouble (rnd i * of_nat (i + 1)) < of_nat (i + 1)"
    using assms by (intro roundToDouble_below) simp_all
  then have "\<lfloor>roundToDouble (rnd i * of_nat (i + 1))\<rfloor> < int (i + 1)"
    by (simp add: floor_less_iff)
  then show ?thesis
    by (simp add: drawIndex_def)
qed

text \<open>The drawn index is the exact product rounded down, or up when the product rounds to the next integer.\<close>

lemma drawIndex_between:
  assumes "0 \<le> rnd i" and "rnd i \<le> 1 - 1 / 2 ^ 53" and "i < 2 ^ 53"
  shows "nat \<lfloor>rnd i * of_nat (i + 1)\<rfloor> \<le> drawIndex rnd i"
    and "drawIndex rnd i \<le> nat \<lceil>rnd i * of_nat (i + 1)\<rceil>"
proof -
  define x where "x = rnd i * of_nat (i + 1)"
  have x0: "0 \<le> x" using assms(1) by (simp add: x_def)
  have "x \<le> (1 - 1 / 2 ^ 53) * of_nat (i + 1)"
    unfolding x_def using assms(2) by (intro mult_right_mono) simp_all
  also have "\<dots> < 1 * of_nat (i + 1)"
    by (intro mult_strict_right_mono) simp_all
  finally have "x < of_nat (i + 1)" by simp
  moreover have "(of_nat (i + 1) :: rat) \<le> of_nat (2 ^ 53)"
    using assms(3) by (simp only: of_nat_le_iff)
  then have "(of_nat (i + 1) :: rat) \<le> 2 ^ 53" by simp
  ultimately have xlt: "x < 2 ^ 53" by simp
  have "of_int \<lfloor>x\<rfloor> \<le> roundToDouble x"
    by (rule roundToDouble_ge [OF x0 xlt]) simp
  then have "\<lfloor>x\<rfloor> \<le> \<lfloor>roundToDouble x\<rfloor>" by (simp add: le_floor_iff)
  then show "nat \<lfloor>rnd i * of_nat (i + 1)\<rfloor> \<le> drawIndex rnd i"
    by (simp add: drawIndex_def x_def nat_mono)
  have "roundToDouble x \<le> of_int \<lceil>x\<rceil>"
    by (rule roundToDouble_le [OF x0 xlt]) simp
  then have "\<lfloor>roundToDouble x\<rfloor> \<le> \<lceil>x\<rceil>" by (simp add: floor_le_iff) 
  then show "drawIndex rnd i \<le> nat \<lceil>rnd i * of_nat (i + 1)\<rceil>"
    by (simp add: drawIndex_def x_def nat_mono)
qed


lemma drawIndex_last:
  assumes "rnd i = 1 - 1 / 2 ^ 53" and "i < 2 ^ 53"
  shows "drawIndex rnd i = i"
proof -
  define x where "x = rnd i * of_nat (i + 1)"
  have r: "0 \<le> rnd i" "rnd i \<le> 1 - 1 / 2 ^ 53" by (simp_all add: assms(1))
  have up: "drawIndex rnd i \<le> i" by (rule drawIndex_le [of rnd i, OF r assms(2)])
  have "(of_nat (i + 1) :: rat) \<le> of_nat (2 ^ 53)"
    using assms(2) by (simp only: of_nat_le_iff)
  then have n: "(of_nat (i + 1) :: rat) / 2 ^ 53 \<le> 1" by simp
  have "x = of_nat (i + 1) - of_nat (i + 1) / 2 ^ 53"
    by (simp add: x_def assms(1) left_diff_distrib del: of_nat_add of_nat_Suc)
  with n have "of_nat i \<le> x" by simp
  then have "int i \<le> \<lfloor>x\<rfloor>" by (simp add: le_floor_iff)
  then have "i \<le> nat \<lfloor>x\<rfloor>" by simp
  also have "\<dots> \<le> drawIndex rnd i"
    unfolding x_def by (rule drawIndex_between(1) [of rnd i, OF r assms(2)])
  finally show ?thesis using up by simp
qed



lemma exact_product_rounds_down: "nat \<lfloor>(5404319552844595 / 2 ^ 53 * of_nat (4 + 1) :: rat)\<rfloor> = 2"
  by simp

subsection \<open>What stopping the timers leaves alone\<close>

lemma stopTimer_frame:
  "heap (stopTimer w) = heap w" "cards (stopTimer w) = cards w"
  "flippedCards (stopTimer w) = flippedCards w" "matchedPairs (stopTimer w) = matchedPairs w"
  "moves (stopTimer w) = moves w" "startTime (stopTimer w) = startTime w"
  "gameActive (stopTimer w) = gameActive w" "gamePaused (stopTimer w) = gamePaused w"
  "pauseStartTime (stopTimer w) = pauseStartTime w"
  "totalPauseTime (stopTimer w) = totalPauseTime w"
  "currentDifficulty (stopTimer w) = currentDifficulty w"
  "timeLimit_cur (stopTimer w) = timeLimit_cur w" "leaderboard (stopTimer w) = leaderboard w"
  "timerText (stopTimer w) = timerText w" "movesText (stopTimer w) = movesText w"
  "scoreText (stopTimer w) = scoreText w" "storage (stopTimer w) = storage w"
  "timeouts (stopTimer w) = timeouts w" "nextHandle (stopTimer w) = nextHandle w"
  "played (stopTimer w) = played w"
  by (simp_all add: stopTimer_def clearInterval_def Let_def split: option.splits)

lemma stopTimer_handles:
  "timerInterval (stopTimer w) = (if timerInterval w = Some 0 then Some 0 else None)"
  "timeLimitInterval (stopTimer w) = (if timeLimitInterval w = Some 0 then Some 0 else None)"
  by (simp_all add: stopTimer_def clearInterval_def Let_def split: option.splits)

subsection \<open>Reset\<close>

text \<open>
  Claim C10. \<open>resetGame\<close> zeroes the counters, the list of face-up cards, both flags and
  the timing fields, and drops both timer handles, but it touches neither the deck nor
  any card object: every card keeps its place, its id, its symbol and both of its
  flags, so a card matched before the reset is still matched after it.
\<close>

theorem resetGame_keeps_deck:
  "moves (resetGame w) = 0 \<and> matchedPairs (resetGame w) = 0
   \<and> flippedCards (resetGame w) = []
   \<and> gameActive (resetGame w) = False \<and> gamePaused (resetGame w) = False
   \<and> startTime (resetGame w) = None \<and> pauseStartTime (resetGame w) = None
   \<and> totalPauseTime (resetGame w) = 0 \<and> timeLimit_cur (resetGame w) = Null
   \<and> timerInterval (resetGame w) = (if timerInterval w = Some 0 then Some 0 else None)
   \<and> timeLimitInterval (resetGame w)
       = (if timeLimitInterval w = Some 0 then Some 0 else None)
   \<and> cards (resetGame w) = cards w \<and> heap (resetGame w) = heap w
   \<and> deck (resetGame w) = deck w"
  by (simp add: resetGame_def resetStats_def stopTimer_frame stopTimer_handles deck_def)

subsection \<open>The deck builder\<close>

lemma pushPairs_eq:
  "pushPairs c i acc =
     acc @ concat (map (\<lambda>k. [symbolAt (symbols c) k, symbolAt (symbols c) k])
                     [i..<nat (pairs c)])"
proof (induction c i acc rule: pushPairs.induct)
  case (1 c i cardPairs)
  show ?case
  proof (cases "int i < pairs c")
    case True
    then have "[i..<nat (pairs c)] = i # [Suc i..<nat (pairs c)]"
      by (simp add: upt_conv_Cons)
    with True 1 show ?thesis
      by (subst pushPairs.simps) simp
  next
    case False
    then show ?thesis by (subst pushPairs.simps) simp
  qed
qed

lemma length_concat_pairs: "length (concat (map (\<lambda>k. [f k, f k]) ks)) = 2 * length ks"
  by (induction ks) simp_all

lemma length_pushPairs: "length (pushPairs c 0 []) = 2 * nat (pairs c)"
  by (simp add: pushPairs_eq length_concat_pairs)

lemma nth_concat_pairs:
  "i < length ks \<Longrightarrow>
     concat (map (\<lambda>k. [f k, f k]) ks) ! (2 * i) = f (ks ! i)
     \<and> concat (map (\<lambda>k. [f k, f k]) ks) ! (2 * i + 1) = f (ks ! i)"
proof (induction ks arbitrary: i)
  case Nil
  then show ?case by simp
next
  case (Cons k ks)
  then show ?case by (cases i) simp_all
qed

lemma nth_pushPairs:
  assumes "i < nat (pairs c)"
  shows "pushPairs c 0 [] ! (2 * i) = symbolAt (symbols c) i"
    and "pushPairs c 0 [] ! (2 * i + 1) = symbolAt (symbols c) i"
  using nth_concat_pairs [of i "[0..<nat (pairs c)]" "symbolAt (symbols c)"] assms
  by (simp_all add: pushPairs_eq)






subsection \<open>The shuffle\<close>






subsection \<open>Card objects of a new deck\<close>













subsection \<open>The concrete game is the constructed one\<close>

lemma drawIndex_identityDraws: "i < 2 ^ 53 \<Longrightarrow> drawIndex identityDraws i = i"
  by (rule drawIndex_last) (simp_all add: identityDraws_def)

lemma fisherYates_identityDraws:
  assumes "length xs \<le> 2 ^ 53"
  shows "fisherYates identityDraws xs = xs"
proof -
  have "shuffleLoop identityDraws k ys = ys" if "k < 2 ^ 53" for k and ys :: "'a list"
    using that by (induction k arbitrary: ys) (simp_all add: drawIndex_identityDraws swapAt_def)
  moreover have "length xs - 1 < 2 ^ 53"
    using assms by (cases xs) simp_all
  ultimately show ?thesis by (simp add: fisherYates_def)
qed

lemma makeCards_medium: "makeCards (pushPairs medium 0 []) = mediumCards"
proof -
  have "[0..<8] = [0, 1, 2, 3, 4, 5, 6, 7 :: nat]"
    by code_simp
  then have "pushPairs medium 0 [] =
     [Some 127919, Some 127919, Some 127922, Some 127922, Some 127914, Some 127914,
      Some 127912, Some 127912, Some 127917, Some 127917, Some 127918, Some 127918,
      Some 127925, Some 127925, Some 127928, Some 127928]"
    by (simp add: pushPairs_eq medium_def symbolAt_def)
  then show ?thesis
    by (simp add: makeCards_def mediumCards_def makeCard_def)
qed

lemma newMemoryGame_freshGame:
  "newMemoryGame identityDraws None = Inr freshGame"
  "newMemoryGame identityDraws (Some (JsonText (Entries (map scored [1500, 1000, 500]))))
     = Inr rankedGame"
proof -
  have upt: "[0..<16] = [0, 1, 2, 3, 4, 5, 6, 7, 8, 9, 10, 11, 12, 13, 14, 15 :: nat]"
    by code_simp
  have len: "length (pushPairs medium 0 []) = 16"
    by (simp add: length_pushPairs medium_def)
  then have "length (pushPairs medium 0 []) \<le> 2 ^ 53"
    by simp
  note same = fisherYates_identityDraws [OF this]
  have built: "shuffleCards identityDraws w
          = Done (w\<lparr>heap := mediumCards,
                    cards := [0, 1, 2, 3, 4, 5, 6, 7, 8, 9, 10, 11, 12, 13, 14, 15]\<rparr>)"
    if "heap w = []" and "currentDifficulty w = ''medium''" for w
    using that
    by (simp add: shuffleCards_def difficultyConfigs_def same len makeCards_medium upt)
  show "newMemoryGame identityDraws None = Inr freshGame"
    by (simp add: newMemoryGame_def loadLeaderboard_def built resetStats_def stopTimer_def
        freshGame_def)
  show "newMemoryGame identityDraws (Some (JsonText (Entries (map scored [1500, 1000, 500]))))
          = Inr rankedGame"
    by (simp add: newMemoryGame_def loadLeaderboard_def built resetStats_def stopTimer_def
        freshGame_def rankedGame_def)
qed

subsection \<open>Scoring\<close>

lemma floor_max_zero: "\<lfloor>max 0 (x :: rat)\<rfloor> = max 0 \<lfloor>x\<rfloor>"
  by (simp add: max_def)

lemma floor_seconds_left:
  "\<lfloor>(of_int limit :: rat) - of_int elapsed / 1000\<rfloor> = (limit * 1000 - elapsed) div 1000"
proof -
  have "(of_int limit :: rat) - of_int elapsed / 1000 = of_int (limit * 1000 - elapsed) / of_int 1000"
    by (simp add: field_simps)
  then show ?thesis
    by (simp only: floor_divide_of_int_eq)
qed

text \<open>
  Claim C4. With a difficulty of the catalog, \<open>updateScore\<close> writes
  \<open>floor(matchedPairs * 100 + max(0, timeLimit - elapsed) + max(0, pairs * 2 - moves))\<close>
  to the score node, where \<open>elapsed\<close> is the clock minus \<open>startTime\<close> in seconds, a
  fraction in general. The time spent paused does not enter. In whole numbers the
  time bonus is the number of full seconds left of the limit.
\<close>

theorem updateScore_formula:
  assumes "difficultyConfigs (currentDifficulty w) = Own c"
    and "startTime w = Some t"
  shows "\<exists>s. updateScore now w = Done (w\<lparr>scoreText := Num s\<rparr>)
     \<and> s = \<lfloor>of_int (matchedPairs w * 100)
             + max 0 (of_int (timeLimit c) - (of_int (now - t) :: rat) / 1000)
             + of_int (max 0 (pairs c * 2 - moves w))\<rfloor>
     \<and> s = matchedPairs w * 100 + max 0 ((timeLimit c * 1000 - (now - t)) div 1000)
             + max 0 (pairs c * 2 - moves w)
     \<and> updateScore now (w\<lparr>totalPauseTime := p\<rparr>)
         = Done (w\<lparr>totalPauseTime := p, scoreText := Num s\<rparr>)"
  using assms
  by (simp add: updateScore_def numberOf_def Let_def floor_max_zero floor_seconds_left
      del: of_int_diff of_int_mult)

theorem updateScore_formula_witness:
  "difficultyConfigs
     (currentDifficulty
        (freshGame\<lparr>currentDifficulty := ''easy'', matchedPairs := 8, moves := 16,
                   startTime := Some 5000\<rparr>)) = Own easy
   \<and> scoreText
        (stateOf (updateScore 5000
           (freshGame\<lparr>currentDifficulty := ''easy'', matchedPairs := 8, moves := 16,
                      startTime := Some 5000\<rparr>))) = Num 1100"
proof -
  let ?w = "freshGame\<lparr>currentDifficulty := ''easy'', matchedPairs := 8, moves := 16,
                      startTime := Some 5000\<rparr>"
  have d: "difficultyConfigs (currentDifficulty ?w) = Own easy"
    by (simp add: difficultyConfigs_def)
  have t: "startTime ?w = Some 5000"
    by simp
  from updateScore_formula [OF d t, of 5000 0] d show ?thesis
    by (auto simp add: easy_def)
qed

subsection \<open>Leaderboard\<close>

text \<open>
  On entries whose scores are numbers the comparator \<open>b.score - a.score\<close> orders by the
  negated score, and the stable insertion is the library's stable sort by that key.
\<close>

lemma insertEntry_insort_key:
  assumes "\<exists>k. score x = Num k" and "\<forall>y \<in> set ys. \<exists>k. score y = Num k"
  shows "insertEntry x ys = insort_key (\<lambda>x. case score x of Num k \<Rightarrow> - k | _ \<Rightarrow> 0) x ys"
  using assms by (induction ys) (auto simp add: compareScore_def jsSub_def)

lemma sortEntries_sort_key:
  assumes "\<forall>x \<in> set xs. \<exists>k. score x = Num k"
  shows "sortEntries xs = sort_key (\<lambda>x. case score x of Num k \<Rightarrow> - k | _ \<Rightarrow> 0) xs"
  using assms
proof (induction xs)
  case Nil
  then show ?case by (simp add: sortEntries_def)
next
  case (Cons x xs)
  then have "sortEntries xs = sort_key (\<lambda>x. case score x of Num k \<Rightarrow> - k | _ \<Rightarrow> 0) xs"
    by simp
  moreover have "\<forall>y \<in> set (sort_key (\<lambda>x. case score x of Num k \<Rightarrow> - k | _ \<Rightarrow> 0) xs).
                   \<exists>k. score y = Num k"
    using Cons.prems by simp
  ultimately show ?case
    using Cons.prems insertEntry_insort_key [of x "sortEntries xs"]
    by (simp add: sortEntries_def)
qed

lemma numeric_scores:
  assumes "map score xs = map Num ns"
  shows "\<forall>x \<in> set xs. \<exists>k. score x = Num k"
proof
  fix x assume "x \<in> set xs"
  then have "score x \<in> set (map score xs)" by simp
  then show "\<exists>k. score x = Num k" unfolding assms by auto
qed

lemma sort_map_key: "sort (map f xs) = map f (sort_key f xs)"
  by (rule properties_for_sort) (simp_all add: sorted_sort_key)

lemma sort_uminus: "sort (map uminus ns) = map uminus (rev (sort ns))" for ns :: "int list"
  by (rule properties_for_sort) (simp_all add: sorted_map sorted_wrt_rev)

lemma scores_sort_key:
  assumes "map score xs = map Num ns"
  shows "map score (sort_key (\<lambda>x. case score x of Num k \<Rightarrow> - k | _ \<Rightarrow> 0) xs)
           = map Num (rev (sort ns))"
proof -
  let ?key = "\<lambda>x. case score x of Num k \<Rightarrow> - k | _ \<Rightarrow> (0::int)"
  have "map ?key xs = map (\<lambda>v. case v of Num k \<Rightarrow> - k | _ \<Rightarrow> 0) (map score xs)"
    by simp
  also have "\<dots> = map uminus ns"
    unfolding assms by simp
  finally have keys: "map ?key xs = map uminus ns" .
  have "\<forall>x \<in> set (sort_key ?key xs). score x = Num (- ?key x)"
    using numeric_scores [OF assms] by auto
  then have "map score (sort_key ?key xs) = map (\<lambda>k. Num (- k)) (map ?key (sort_key ?key xs))"
    by simp
  also have "\<dots> = map (\<lambda>k. Num (- k)) (sort (map ?key xs))"
    by (simp only: sort_map_key)
  also have "\<dots> = map Num (rev (sort ns))"
    by (simp add: keys sort_uminus)
  finally show ?thesis .
qed

lemma last_Min:
  fixes ns :: "int list"
  assumes "sorted (rev ns)" and "ns \<noteq> []"
  shows "last ns = Min (set ns)"
proof -
  have "\<forall>y \<in> set ns. last ns \<le> y"
  proof
    fix y assume "y \<in> set ns"
    then obtain i where i: "i < length ns" "ns ! i = y" by (auto simp add: in_set_conv_nth)
    then have "ns ! (length ns - 1) \<le> ns ! i"
      using assms(1) by (intro sorted_rev_nth_mono) simp_all
    with i assms(2) show "last ns \<le> y" by (simp add: last_conv_nth)
  qed
  with assms(2) show ?thesis by (intro Min_eqI [symmetric]) simp_all
qed

text \<open>
  Claim C5. On a leaderboard whose scores are the numbers \<open>ns\<close>, \<open>checkHighScore\<close> of
  a score \<open>n\<close> is true exactly when there are fewer than five entries or \<open>n\<close> is
  strictly greater than the last score; on a leaderboard in descending order with five
  or more entries that is the lowest score. \<open>saveToLeaderboard\<close> returns with a
  session in which only the leaderboard and the stored text have changed: the new
  leaderboard is the old entries and the new one after them, stably sorted by
  descending score and cut to the first five, so its scores are the five (or fewer)
  greatest of \<open>ns\<close> and \<open>n\<close> in descending order, its length is the old length plus one
  and at most five, its entries are old entries or the new one, and the stored text is
  its serialization.
\<close>

theorem saveToLeaderboard_ranked:
  assumes "leaderboard w = Entries lb" and "map score lb = map Num ns"
  shows "(checkHighScore lb (Num n) \<longleftrightarrow> length lb < 5 \<or> n > last ns)
     \<and> (5 \<le> length lb \<and> sorted (rev ns)
          \<longrightarrow> (checkHighScore lb (Num n) \<longleftrightarrow> n > Min (set ns)))
     \<and> (\<exists>lb' ns'.
           saveToLeaderboard now (Num n) t m w
             = Done (w\<lparr>leaderboard := Entries lb', storage := Some (JsonText (Entries lb'))\<rparr>)
         \<and> lb' = take 5 (sort_key (\<lambda>x. case score x of Num k \<Rightarrow> - k | _ \<Rightarrow> 0)
                    (lb @ [\<lparr>score = Num n, time = t, moves_e = m,
                            difficulty = currentDifficulty w, date = now\<rparr>]))
         \<and> map score lb' = map Num ns'
         \<and> ns' = take 5 (rev (sort (ns @ [n])))
         \<and> sorted (rev ns')
         \<and> length lb' = min 5 (length lb + 1)
         \<and> mset lb' \<subseteq># add_mset \<lparr>score = Num n, time = t, moves_e = m,
                                   difficulty = currentDifficulty w, date = now\<rparr> (mset lb))"
proof -
  let ?e = "\<lparr>score = Num n, time = t, moves_e = m, difficulty = currentDifficulty w, date = now\<rparr>"
  let ?key = "\<lambda>x. case score x of Num k \<Rightarrow> - k | _ \<Rightarrow> (0::int)"
  let ?lb' = "take 5 (sort_key ?key (lb @ [?e]))"
  let ?ns' = "take 5 (rev (sort (ns @ [n])))"
  have len: "length lb = length ns"
    using assms(2) by (metis length_map)
  have pushed: "map score (lb @ [?e]) = map Num (ns @ [n])"
    using assms(2) by simp
  have last: "score (last lb) = Num (last ns)" if "lb \<noteq> []"
  proof -
    have "score (last lb) = last (map score lb)" using that by (simp add: last_map)
    also have "\<dots> = last (map Num ns)" by (simp only: assms(2))
    also have "\<dots> = Num (last ns)" using that len by (intro last_map) auto
    finally show ?thesis .
  qed
  have check: "checkHighScore lb (Num n) \<longleftrightarrow> length lb < 5 \<or> n > last ns"
  proof (cases "lb = []")
    case True
    then show ?thesis by (simp add: checkHighScore_def)
  next
    case False
    then show ?thesis by (simp add: checkHighScore_def jsGreater_def last)
  qed
  have lowest: "checkHighScore lb (Num n) \<longleftrightarrow> n > Min (set ns)"
    if "5 \<le> length lb" and "sorted (rev ns)"
  proof -
    from that(1) len have "ns \<noteq> []" by auto
    from last_Min [OF that(2) this] check that(1) show ?thesis by simp
  qed
  have sorted: "sortEntries (lb @ [?e]) = sort_key ?key (lb @ [?e])"
    by (rule sortEntries_sort_key) (rule numeric_scores [OF pushed])
  have "set ?lb' \<subseteq> set (lb @ [?e])"
    using set_take_subset [of 5 "sort_key ?key (lb @ [?e])"] by simp
  then have "\<forall>x \<in> set ?lb'. \<exists>k. score x = Num k"
    using numeric_scores [OF pushed] by blast
  then have "map jsonEntry ?lb' = ?lb'"
    by (intro map_idI) (auto simp add: jsonEntry_def)
  then have run: "saveToLeaderboard now (Num n) t m w
      = Done (w\<lparr>leaderboard := Entries ?lb', storage := Some (JsonText (Entries ?lb'))\<rparr>)"
    by (simp add: saveToLeaderboard_def saveLeaderboard_def stringified_def assms(1) sorted)
  have scores: "map score ?lb' = map Num ?ns'"
    by (simp only: take_map [symmetric] scores_sort_key [OF pushed])
  have "rev ?ns' = drop (length (ns @ [n]) - 5) (sort (ns @ [n]))"
    by (simp add: rev_take)
  then have desc: "sorted (rev ?ns')"
    by (simp only: sorted_wrt_drop sorted_sort)
  have size: "length ?lb' = min 5 (length lb + 1)"
    by simp
  have "mset ?lb' \<subseteq># mset (sort_key ?key (lb @ [?e]))"
    by (metis append_take_drop_id mset_append mset_subset_eq_add_left)
  then have among: "mset ?lb' \<subseteq># add_mset ?e (mset lb)"
    by simp
  from run scores desc size among
  have "\<exists>lb' ns'.
           saveToLeaderboard now (Num n) t m w
             = Done (w\<lparr>leaderboard := Entries lb', storage := Some (JsonText (Entries lb'))\<rparr>)
         \<and> lb' = ?lb' \<and> map score lb' = map Num ns' \<and> ns' = ?ns' \<and> sorted (rev ns')
         \<and> length lb' = min 5 (length lb + 1) \<and> mset lb' \<subseteq># add_mset ?e (mset lb)"
    by (intro exI [of _ ?lb'] exI [of _ ?ns']) (simp only: simp_thms)
  moreover have "5 \<le> length lb \<and> sorted (rev ns)
      \<longrightarrow> (checkHighScore lb (Num n) \<longleftrightarrow> n > Min (set ns))"
    using lowest by blast
  moreover note check
  ultimately show ?thesis by (intro conjI) assumption+
qed

theorem saveToLeaderboard_ranked_witness:
  "leaderboard crowdedGame = Entries (map scored [1500, 1200, 1000, 500, 300])
   \<and> map score (map scored [1500, 1200, 1000, 500, 300]) = map Num [1500, 1200, 1000, 500, 300]
   \<and> checkHighScore (map scored [1500, 1200, 1000, 500, 300]) (Num 800)
   \<and> \<not> checkHighScore (map scored [1500, 1200, 1000, 500, 300]) (Num 300)
   \<and> \<not> checkHighScore (map scored [1500, 1200, 1000, 500, 300]) (Num 200)
   \<and> (\<exists>lb'. saveToLeaderboard 0 (Num 800) (1, 0) 10 crowdedGame
               = Done (crowdedGame\<lparr>leaderboard := Entries lb',
                                    storage := Some (JsonText (Entries lb'))\<rparr>)
           \<and> map score lb' = map Num [1500, 1200, 1000, 800, 500]
           \<and> length lb' = 5)
   \<and> leaderboard rankedGame = Entries (map scored [1500, 1000, 500])
   \<and> map score (map scored [1500, 1000, 500]) = map Num [1500, 1000, 500]
   \<and> checkHighScore (map scored [1500, 1000, 500]) (Num 1200)
   \<and> (\<exists>lb'. saveToLeaderboard 0 (Num 1200) (1, 0) 10 rankedGame
               = Done (rankedGame\<lparr>leaderboard := Entries lb',
                                   storage := Some (JsonText (Entries lb'))\<rparr>)
           \<and> map score lb' = map Num [1500, 1200, 1000, 500]
           \<and> length lb' = 4)"
proof -
  have c: "leaderboard crowdedGame = Entries (map scored [1500, 1200, 1000, 500, 300])"
    "map score (map scored [1500, 1200, 1000, 500, 300]) = map Num [1500, 1200, 1000, 500, 300]"
    by (simp_all add: crowdedGame_def scored_def)
  have r: "leaderboard rankedGame = Entries (map scored [1500, 1000, 500])"
    "map score (map scored [1500, 1000, 500]) = map Num [1500, 1000, 500]"
    by (simp_all add: rankedGame_def scored_def)
  have desc: "sorted (rev [1500, 1200, 1000, 500, 300 :: int])"
    by simp
  note crowded = saveToLeaderboard_ranked [OF c]
  note ranked = saveToLeaderboard_ranked [OF r]
  have "checkHighScore (map scored [1500, 1200, 1000, 500, 300]) (Num 800)"
    using crowded [where n = 800, THEN conjunct1] by simp
  moreover have "\<not> checkHighScore (map scored [1500, 1200, 1000, 500, 300]) (Num 300)"
    using crowded [where n = 300, THEN conjunct2, THEN conjunct1] desc by simp
  moreover have "\<not> checkHighScore (map scored [1500, 1200, 1000, 500, 300]) (Num 200)"
    using crowded [where n = 200, THEN conjunct1] by simp
  moreover have "checkHighScore (map scored [1500, 1000, 500]) (Num 1200)"
    using ranked [where n = 1200, THEN conjunct1] by simp
  moreover have "\<exists>lb'. saveToLeaderboard 0 (Num 800) (1, 0) 10 crowdedGame
               = Done (crowdedGame\<lparr>leaderboard := Entries lb',
                                    storage := Some (JsonText (Entries lb'))\<rparr>)
           \<and> map score lb' = map Num [1500, 1200, 1000, 800, 500]
           \<and> length lb' = 5"
  proof -
    from crowded [where n = 800 and now = 0 and t = "(1, 0)" and m = 10,
        THEN conjunct2, THEN conjunct2]
    obtain lb' ns' where
      "saveToLeaderboard 0 (Num 800) (1, 0) 10 crowdedGame
         = Done (crowdedGame\<lparr>leaderboard := Entries lb',
                              storage := Some (JsonText (Entries lb'))\<rparr>)"
      and "map score lb' = map Num ns'"
      and "ns' = take 5 (rev (sort ([1500, 1200, 1000, 500, 300] @ [800])))"
      and "length lb' = min 5 (length (map scored [1500, 1200, 1000, 500, 300]) + 1)"
      by (elim exE conjE) (rule that; assumption)
    then show ?thesis by (intro exI [of _ lb']) simp
  qed
  moreover have "\<exists>lb'. saveToLeaderboard 0 (Num 1200) (1, 0) 10 rankedGame
               = Done (rankedGame\<lparr>leaderboard := Entries lb',
                                   storage := Some (JsonText (Entries lb'))\<rparr>)
           \<and> map score lb' = map Num [1500, 1200, 1000, 500]
           \<and> length lb' = 4"
  proof -
    from ranked [where n = 1200 and now = 0 and t = "(1, 0)" and m = 10,
        THEN conjunct2, THEN conjunct2]
    obtain lb' ns' where
      "saveToLeaderboard 0 (Num 1200) (1, 0) 10 rankedGame
         = Done (rankedGame\<lparr>leaderboard := Entries lb',
                             storage := Some (JsonText (Entries lb'))\<rparr>)"
      and "map score lb' = map Num ns'"
      and "ns' = take 5 (rev (sort ([1500, 1000, 500] @ [1200])))"
      and "length lb' = min 5 (length (map scored [1500, 1000, 500]) + 1)"
      by (elim exE conjE) (rule that; assumption)
    then show ?thesis by (intro exI [of _ lb']) simp
  qed
  ultimately show ?thesis using c r by (intro conjI) assumption+
qed

subsection \<open>Loading the leaderboard\<close>

lemma resetStats_frame:
  "heap (resetStats w) = heap w" "cards (resetStats w) = cards w"
  "currentDifficulty (resetStats w) = currentDifficulty w"
  "leaderboard (resetStats w) = leaderboard w" "storage (resetStats w) = storage w"
  "timeouts (resetStats w) = timeouts w" "played (resetStats w) = played w"
  "moves (resetStats w) = 0" "matchedPairs (resetStats w) = 0"
  "flippedCards (resetStats w) = []" "gameActive (resetStats w) = False"
  "gamePaused (resetStats w) = False"
  by (simp_all add: resetStats_def stopTimer_frame)




subsection \<open>Changing the difficulty\<close>

text \<open>
  Claim C8 fails in both halves. An unknown name makes \<open>changeDifficulty\<close> throw only
  after it has stored the name in \<open>currentDifficulty\<close> and reset the statistics; and a
  name that every object inherits, such as \<open>toString\<close>, does not make it fail at all:
  the game is left with an empty deck.
\<close>

theorem changeDifficulty_unknown_changes_state:
  "changeDifficulty ''expert'' identityDraws freshGame
     = Threw TypeError (freshGame\<lparr>currentDifficulty := ''expert''\<rparr>)
   \<and> currentDifficulty (stateOf (changeDifficulty ''expert'' identityDraws freshGame))
       \<noteq> currentDifficulty freshGame
   \<and> changeDifficulty ''toString'' identityDraws freshGame
     = Done (freshGame\<lparr>currentDifficulty := ''toString'', cards := []\<rparr>)"
  by (simp add: changeDifficulty_def shuffleCards_def difficultyConfigs_def
      objectPrototypeProps_def resetStats_def stopTimer_def freshGame_def)

text \<open>
  Claim C8, amended. For a name that is neither \<open>easy\<close>, \<open>medium\<close> nor \<open>hard\<close> nor the
  name of a property inherited from \<open>Object.prototype\<close>, \<open>changeDifficulty\<close> fails with
  a \<open>TypeError\<close> raised where \<open>shuffleCards\<close> reads the missing configuration. No deck is
  built: the cards, the card objects, the leaderboard and the persisted blob are as
  before. The session is then in the state that \<open>resetStats\<close> leaves after the name has
  been stored in \<open>currentDifficulty\<close>.
\<close>

theorem changeDifficulty_unknown:
  assumes "name \<noteq> ''easy''" and "name \<noteq> ''medium''" and "name \<noteq> ''hard''"
    and "name \<notin> set objectPrototypeProps"
  shows "changeDifficulty name rnd w
           = Threw TypeError (resetStats (w\<lparr>currentDifficulty := name\<rparr>))
     \<and> cards (stateOf (changeDifficulty name rnd w)) = cards w
     \<and> heap (stateOf (changeDifficulty name rnd w)) = heap w
     \<and> leaderboard (stateOf (changeDifficulty name rnd w)) = leaderboard w
     \<and> storage (stateOf (changeDifficulty name rnd w)) = storage w
     \<and> currentDifficulty (stateOf (changeDifficulty name rnd w)) = name"
  using assms
  by (simp add: changeDifficulty_def shuffleCards_def difficultyConfigs_def resetStats_frame)

theorem changeDifficulty_unknown_witness:
  "''expert'' \<noteq> ''easy'' \<and> ''expert'' \<noteq> ''medium'' \<and> ''expert'' \<noteq> ''hard''
   \<and> ''expert'' \<notin> set objectPrototypeProps
   \<and> changeDifficulty ''expert'' identityDraws freshGame
       = Threw TypeError (resetStats (freshGame\<lparr>currentDifficulty := ''expert''\<rparr>))
   \<and> cards (stateOf (changeDifficulty ''expert'' identityDraws freshGame)) = cards freshGame"
proof -
  have n: "''expert'' \<noteq> ''easy''" "''expert'' \<noteq> ''medium''" "''expert'' \<noteq> ''hard''"
    "''expert'' \<notin> set objectPrototypeProps"
    by (simp_all add: objectPrototypeProps_def)
  from changeDifficulty_unknown [OF n, of identityDraws freshGame] n show ?thesis
    by blast
qed

subsection \<open>Rejected flips\<close>

lemmas engine_defs =
  step_def flipCard_def startGame_def startTimer_def startTimeLimit_def
  difficultyConfigs_def medium_def playSound_def setFlipped_def setMatched_def
  checkForMatch_def updateMovesDisplay_def setTimeout_def flipBackDelay_def
  runCallback_def matchReveal_def flipBack_def updateScore_def numberOf_def endGame_def
  pauseGame_def resumeGame_def resetGame_def resetStats_def stopTimer_def clearInterval_def
  limitTick_def timerTick_def parseInt_def checkHighScore_def saveToLeaderboard_def
  saveLeaderboard_def stringified_def sortEntries_def jsonEntry_def compareScore_def jsSub_def jsLessEq_def
  mediumCards_def makeCard_def freshGame_def Let_def

lemma resetWithCardUp_fields:
  "isFlipped (heap resetWithCardUp ! 0)" "\<not> gameActive resetWithCardUp"
  "\<not> gamePaused resetWithCardUp" "startTime resetWithCardUp = None"
  "intervals resetWithCardUp = []" "played resetWithCardUp = [''flip'']"
  "length (heap resetWithCardUp) = 16" "currentDifficulty resetWithCardUp = ''medium''"
  "nextHandle resetWithCardUp = 3" "flippedCards resetWithCardUp = []"
  by (simp_all add: resetWithCardUp_def engine_defs)

text \<open>
  Claim C3 fails when the session is not active: \<open>flipCard\<close> starts the game before it
  looks at the card. Here the card at address \<open>0\<close> is face up and the session idle; the
  click is rejected (no card changes, no sound), yet the session is now active, its
  start time is set and both timers run.
\<close>

theorem flipCard_rejected_starts_game:
  "isFlipped (heap resetWithCardUp ! 0)
   \<and> gameActive resetWithCardUp = False
   \<and> flipCard 3000 0 resetWithCardUp \<noteq> Done resetWithCardUp
   \<and> gameActive (stateOf (flipCard 3000 0 resetWithCardUp)) = True
   \<and> startTime (stateOf (flipCard 3000 0 resetWithCardUp)) = Some 3000
   \<and> intervals (stateOf (flipCard 3000 0 resetWithCardUp)) = [(3, TimerTicker), (4, LimitTicker)]
   \<and> heap (stateOf (flipCard 3000 0 resetWithCardUp)) = heap resetWithCardUp
   \<and> played (stateOf (flipCard 3000 0 resetWithCardUp)) = played resetWithCardUp"
proof -
  have "flipCard 3000 0 resetWithCardUp =
          Done (resetWithCardUp\<lparr>gameActive := True, startTime := Some 3000,
                  intervals := [(3, TimerTicker), (4, LimitTicker)],
                  timerInterval := Some 3, nextHandle := 5,
                  timeLimit_cur := Num 240, timeLimitInterval := Some 4\<rparr>)"
    by (simp add: flipCard_def startGame_def startTimer_def startTimeLimit_def
        difficultyConfigs_def medium_def resetWithCardUp_fields)
  moreover have "gameActive resetWithCardUp = False"
    using resetWithCardUp_fields by simp
  ultimately show ?thesis
    using resetWithCardUp_fields(1)
    by (auto dest: arg_cong [where f = gameActive])
qed

text \<open>
  Claim C3, amended. A flip request on a paused session, on a card that is face up or
  matched, or while two cards are face up, never changes a card, the list of face-up
  cards, the moves, the matched pairs, the pause flag or the pending callbacks, and
  emits no signal. When the session is active it changes nothing at all.
\<close>

theorem flipCard_rejected:
  assumes "gamePaused w
           \<or> (cardRef < length (heap w)
               \<and> (isFlipped (heap w ! cardRef) \<or> isMatched (heap w ! cardRef)
                    \<or> 2 \<le> length (flippedCards w)))"
  shows "(gameActive w \<longrightarrow> flipCard now cardRef w = Done w)
     \<and> heap (stateOf (flipCard now cardRef w)) = heap w
     \<and> cards (stateOf (flipCard now cardRef w)) = cards w
     \<and> flippedCards (stateOf (flipCard now cardRef w)) = flippedCards w
     \<and> moves (stateOf (flipCard now cardRef w)) = moves w
     \<and> matchedPairs (stateOf (flipCard now cardRef w)) = matchedPairs w
     \<and> gamePaused (stateOf (flipCard now cardRef w)) = gamePaused w
     \<and> timeouts (stateOf (flipCard now cardRef w)) = timeouts w
     \<and> movesText (stateOf (flipCard now cardRef w)) = movesText w
     \<and> scoreText (stateOf (flipCard now cardRef w)) = scoreText w
     \<and> played (stateOf (flipCard now cardRef w)) = played w"
  using assms
  by (auto simp add: flipCard_def startGame_def startTimeLimit_def startTimer_def
      split: lookup.splits)

theorem flipCard_rejected_witness:
  "0 < length (heap oneCardUp) \<and> isFlipped (heap oneCardUp ! 0) \<and> gameActive oneCardUp
   \<and> flipCard 1500 0 oneCardUp = Done oneCardUp
   \<and> played (stateOf (flipCard 1500 0 oneCardUp)) = played oneCardUp"
proof -
  have up: "0 < length (heap oneCardUp)" "isFlipped (heap oneCardUp ! 0)"
    "gameActive oneCardUp"
    by (simp_all add: oneCardUp_def engine_defs)
  then have "gamePaused oneCardUp
           \<or> (0 < length (heap oneCardUp)
               \<and> (isFlipped (heap oneCardUp ! 0) \<or> isMatched (heap oneCardUp ! 0)
                    \<or> 2 \<le> length (flippedCards oneCardUp)))"
    by blast
  from flipCard_rejected [OF this, of 1500] up show ?thesis
    by blast
qed

subsection \<open>Pair evaluation\<close>

lemma saveToLeaderboard_frame:
  "heap (stateOf (saveToLeaderboard now s t m w)) = heap w"
  "cards (stateOf (saveToLeaderboard now s t m w)) = cards w"
  "flippedCards (stateOf (saveToLeaderboard now s t m w)) = flippedCards w"
  "matchedPairs (stateOf (saveToLeaderboard now s t m w)) = matchedPairs w"
  "moves (stateOf (saveToLeaderboard now s t m w)) = moves w"
  "gameActive (stateOf (saveToLeaderboard now s t m w)) = gameActive w"
  "gamePaused (stateOf (saveToLeaderboard now s t m w)) = gamePaused w"
  "scoreText (stateOf (saveToLeaderboard now s t m w)) = scoreText w"
  "timerInterval (stateOf (saveToLeaderboard now s t m w)) = timerInterval w"
  "timeLimitInterval (stateOf (saveToLeaderboard now s t m w)) = timeLimitInterval w"
  "timeLimit_cur (stateOf (saveToLeaderboard now s t m w)) = timeLimit_cur w"
  "totalPauseTime (stateOf (saveToLeaderboard now s t m w)) = totalPauseTime w"
  "currentDifficulty (stateOf (saveToLeaderboard now s t m w)) = currentDifficulty w"
  "timeouts (stateOf (saveToLeaderboard now s t m w)) = timeouts w"
  "played (stateOf (saveToLeaderboard now s t m w)) = played w"
  "nextHandle (stateOf (saveToLeaderboard now s t m w)) = nextHandle w"
  by (simp_all add: saveToLeaderboard_def saveLeaderboard_def Let_def split: parsed.splits)

lemma endGame_frame:
  "heap (stateOf (endGame timeUp now w)) = heap w"
  "cards (stateOf (endGame timeUp now w)) = cards w"
  "flippedCards (stateOf (endGame timeUp now w)) = flippedCards w"
  "matchedPairs (stateOf (endGame timeUp now w)) = matchedPairs w"
  "moves (stateOf (endGame timeUp now w)) = moves w"
  "scoreText (stateOf (endGame timeUp now w)) = scoreText w"
  "gamePaused (stateOf (endGame timeUp now w)) = gamePaused w"
  "timeLimit_cur (stateOf (endGame timeUp now w)) = timeLimit_cur w"
  "totalPauseTime (stateOf (endGame timeUp now w)) = totalPauseTime w"
  "currentDifficulty (stateOf (endGame timeUp now w)) = currentDifficulty w"
  "timeouts (stateOf (endGame timeUp now w)) = timeouts w"
  "nextHandle (stateOf (endGame timeUp now w)) = nextHandle w"
  "played (stateOf (endGame timeUp now w)) = (if timeUp then played w else played w @ [''complete''])"
  by (simp_all add: endGame_def Let_def saveToLeaderboard_frame stopTimer_frame playSound_def
      split: parsed.splits)

lemma endGame_stops:
  "gameActive (stateOf (endGame timeUp now w)) = False"
  "timerInterval (stateOf (endGame timeUp now w))
     = (if timerInterval w = Some 0 then Some 0 else None)"
  "timeLimitInterval (stateOf (endGame timeUp now w))
     = (if timeLimitInterval w = Some 0 then Some 0 else None)"
  by (simp_all add: endGame_def Let_def saveToLeaderboard_frame stopTimer_frame
      stopTimer_handles playSound_def split: parsed.splits)

lemma endGame_returns:
  assumes "leaderboard w = Entries lb"
  shows "endGame timeUp now w = Done (stateOf (endGame timeUp now w))"
  using assms
  by (simp add: endGame_def saveToLeaderboard_def Let_def stopTimer_frame playSound_def)

lemma map_other_field:
  assumes "a < length xs" and "f y = f (xs ! a)"
  shows "map f (xs[a := y]) = map f xs"
  using assms by (intro nth_equalityI) (auto simp add: nth_list_update)

lemma flipBack_effect:
  assumes "card1 < length (heap v)" and "card2 < length (heap v)"
  shows "isFlipped (heap (flipBack card1 card2 v) ! card1) = False"
    and "isFlipped (heap (flipBack card1 card2 v) ! card2) = False"
    and "flippedCards (flipBack card1 card2 v) = []"
    and "moves (flipBack card1 card2 v) = moves v"
    and "matchedPairs (flipBack card1 card2 v) = matchedPairs v"
    and "map isMatched (heap (flipBack card1 card2 v)) = map isMatched (heap v)"
    and "map symbol (heap (flipBack card1 card2 v)) = map symbol (heap v)"
    and "\<forall>a. a \<noteq> card1 \<and> a \<noteq> card2 \<longrightarrow> heap (flipBack card1 card2 v) ! a = heap v ! a"
    and "played (flipBack card1 card2 v) = played v"
    and "timeouts (flipBack card1 card2 v) = timeouts v"
    and "scoreText (flipBack card1 card2 v) = scoreText v"
    and "gameActive (flipBack card1 card2 v) = gameActive v"
  using assms
  by (simp_all add: flipBack_def setFlipped_def Let_def nth_list_update map_other_field)

lemma matchReveal_effect:
  assumes "difficultyConfigs (currentDifficulty v) = Own c"
    and "card1 < length (heap v)" and "card2 < length (heap v)"
    and "leaderboard v = Entries lb"
  shows "\<exists>v'. matchReveal now card1 card2 v = Done v'
     \<and> isMatched (heap v' ! card1) \<and> isMatched (heap v' ! card2)
     \<and> map symbol (heap v') = map symbol (heap v)
     \<and> map isFlipped (heap v') = map isFlipped (heap v)
     \<and> (\<forall>a. a \<noteq> card1 \<and> a \<noteq> card2 \<longrightarrow> heap v' ! a = heap v ! a)
     \<and> matchedPairs v' = matchedPairs v + 1
     \<and> flippedCards v' = []
     \<and> moves v' = moves v
     \<and> timeouts v' = timeouts v
     \<and> scoreText v'
         = Num \<lfloor>of_int ((matchedPairs v + 1) * 100)
                 + max 0 (of_int (timeLimit c)
                          - (of_int (now - numberOf (startTime v)) :: rat) / 1000)
                 + of_int (max 0 (pairs c * 2 - moves v))\<rfloor>
     \<and> gameActive v' = (if matchedPairs v + 1 = pairs c then False else gameActive v)
     \<and> timerInterval v'
         = (if matchedPairs v + 1 = pairs c \<and> timerInterval v \<noteq> Some 0 then None
            else timerInterval v)
     \<and> timeLimitInterval v'
         = (if matchedPairs v + 1 = pairs c \<and> timeLimitInterval v \<noteq> Some 0 then None
            else timeLimitInterval v)
     \<and> played v' = (if matchedPairs v + 1 = pairs c then played v @ [''complete'']
                     else played v)"
proof -
  define k where "k = matchedPairs v + 1"
  define sc where "sc = \<lfloor>of_int (k * 100)
                 + max 0 (of_int (timeLimit c)
                          - (of_int (now - numberOf (startTime v)) :: rat) / 1000)
                 + of_int (max 0 (pairs c * 2 - moves v))\<rfloor>"
  define w3 where "w3 = (setMatched True card2 (setMatched True card1 v))
      \<lparr>matchedPairs := matchedPairs v + 1, flippedCards := []\<rparr>"
  define u where "u = w3\<lparr>scoreText := Num sc\<rparr>"
  have w3: "difficultyConfigs (currentDifficulty w3) = Own c"
    "matchedPairs w3 = k" "moves w3 = moves v" "startTime w3 = startTime v"
    using assms(1) by (simp_all add: w3_def setMatched_def k_def)
  have score: "updateScore now w3 = Done u"
    by (simp add: updateScore_def w3 u_def sc_def)
  have u: "leaderboard u = Entries lb"
    "heap u = heap (setMatched True card2 (setMatched True card1 v))"
    "matchedPairs u = k" "flippedCards u = []" "moves u = moves v"
    "timeouts u = timeouts v" "gameActive u = gameActive v" "timerInterval u = timerInterval v"
    "timeLimitInterval u = timeLimitInterval v" "played u = played v"
    "scoreText u = Num sc"
    using assms(4) by (simp_all add: u_def w3_def setMatched_def k_def)
  have heap: "isMatched (heap u ! card1)" "isMatched (heap u ! card2)"
    "map symbol (heap u) = map symbol (heap v)"
    "map isFlipped (heap u) = map isFlipped (heap v)"
    "\<forall>a. a \<noteq> card1 \<and> a \<noteq> card2 \<longrightarrow> heap u ! a = heap v ! a"
    using assms(2,3)
    by (simp_all add: u(2) setMatched_def nth_list_update map_other_field)
  have "difficultyConfigs (currentDifficulty u) = Own c"
    using w3(1) by (simp add: u_def)
  moreover have "matchReveal now card1 card2 v
      = andThen (updateScore now w3) (\<lambda>w4.
           case difficultyConfigs (currentDifficulty w4) of
             Own config \<Rightarrow>
               if matchedPairs w4 = pairs config then endGame False now w4 else Done w4
           | Inherited \<Rightarrow> Done w4
           | Missing \<Rightarrow> Threw TypeError w4)"
    by (simp add: matchReveal_def Let_def w3_def setMatched_def)
  ultimately have run: "matchReveal now card1 card2 v
      = (if k = pairs c then endGame False now u else Done u)"
    by (simp add: score u(3))
  have "\<exists>v'. matchReveal now card1 card2 v = Done v'
     \<and> isMatched (heap v' ! card1) \<and> isMatched (heap v' ! card2)
     \<and> map symbol (heap v') = map symbol (heap v)
     \<and> map isFlipped (heap v') = map isFlipped (heap v)
     \<and> (\<forall>a. a \<noteq> card1 \<and> a \<noteq> card2 \<longrightarrow> heap v' ! a = heap v ! a)
     \<and> matchedPairs v' = k
     \<and> flippedCards v' = []
     \<and> moves v' = moves v
     \<and> timeouts v' = timeouts v
     \<and> scoreText v' = Num sc
     \<and> gameActive v' = (if k = pairs c then False else gameActive v)
     \<and> timerInterval v'
         = (if k = pairs c \<and> timerInterval v \<noteq> Some 0 then None else timerInterval v)
     \<and> timeLimitInterval v'
         = (if k = pairs c \<and> timeLimitInterval v \<noteq> Some 0 then None
            else timeLimitInterval v)
     \<and> played v' = (if k = pairs c then played v @ [''complete''] else played v)"
  proof (cases "k = pairs c")
    case True
    then have "matchReveal now card1 card2 v = Done (stateOf (endGame False now u))"
      using run endGame_returns [OF u(1)] by simp
    with True u(3-) heap show ?thesis
      by (simp add: endGame_frame endGame_stops)
  next
    case False
    with run u(3-) heap show ?thesis
      by simp
  qed
  then show ?thesis unfolding sc_def k_def .
qed

lemma fresh_timeout:
  assumes "h \<notin> fst ` set ts"
  shows "map_of (ts @ [(h, x)]) h = Some x"
    and "filter (\<lambda>(k, d). k \<noteq> h) (ts @ [(h, x)]) = ts"
proof -
  have "map_of ts h = None" using assms by (simp add: map_of_eq_None_iff)
  then show "map_of (ts @ [(h, x)]) h = Some x" by (simp add: map_add_def)
  have "\<forall>p \<in> set ts. (case p of (k, d) \<Rightarrow> k \<noteq> h)" using assms by force
  then show "filter (\<lambda>(k, d). k \<noteq> h) (ts @ [(h, x)]) = ts" by simp
qed

lemma done_stateOf:
  assumes "\<exists>v'. out = Done v' \<and> P v'"
  shows "out = Done (stateOf out) \<and> P (stateOf out)"
  using assms by auto

text \<open>
  Claim C2. Let \<open>w\<close> be the session at the call of \<open>checkForMatch\<close>, with the two cards
  \<open>card1\<close> and \<open>card2\<close> face up, and let the handle that the browser gives out next be
  free. If the symbols are equal, \<open>checkForMatch\<close> emits the match signal and leaves a
  callback pending with a delay of 500 ms; when that timeout fires, the callback is
  taken from the pending ones, both cards are marked matched (nothing else changes in
  the card objects), \<open>matchedPairs\<close> is one more than before, \<open>flippedCards\<close> is empty,
  the score is written anew, and when \<open>matchedPairs\<close> has reached the pair count the
  game is ended: not active, timers dropped, the completion signal emitted. If the
  symbols differ, \<open>checkForMatch\<close> emits nothing and leaves a callback pending with a
  delay of 1000 ms (easy), 750 ms (medium) or 600 ms (hard); when that timeout fires,
  both cards are face down and \<open>flippedCards\<close> is empty, and the moves, \<open>matchedPairs\<close>,
  the score, the active flag, every matched flag and every symbol are as before.
  Whatever else has happened while a callback was pending, in the session \<open>v\<close> in which
  its timeout fires it has the same effects, counted from \<open>v\<close>.
\<close>

theorem checkForMatch_evaluates_pair:
  assumes "flippedCards w = [card1, card2]"
    and "card1 < length (heap w)" and "card2 < length (heap w)"
    and "difficultyConfigs (currentDifficulty w) = Own c"
    and "leaderboard w = Entries lb"
    and "nextHandle w \<notin> fst ` set (timeouts w)"
  shows
    "(symbol (heap w ! card1) = symbol (heap w ! card2) \<longrightarrow>
       (\<exists>w1 v'. checkForMatch w = Done w1
         \<and> w1 = w\<lparr>played := played w @ [''match''],
                  timeouts := timeouts w @ [(nextHandle w, 500, MatchReveal card1 card2)],
                  nextHandle := Suc (nextHandle w)\<rparr>
         \<and> step now (Timeout (nextHandle w)) w1 = Done v'
         \<and> timeouts v' = timeouts w
         \<and> isMatched (heap v' ! card1) \<and> isMatched (heap v' ! card2)
         \<and> map symbol (heap v') = map symbol (heap w)
         \<and> map isFlipped (heap v') = map isFlipped (heap w)
         \<and> (\<forall>a. a \<noteq> card1 \<and> a \<noteq> card2 \<longrightarrow> heap v' ! a = heap w ! a)
         \<and> matchedPairs v' = matchedPairs w + 1
         \<and> flippedCards v' = []
         \<and> moves v' = moves w
         \<and> scoreText v'
             = Num \<lfloor>of_int ((matchedPairs w + 1) * 100)
                     + max 0 (of_int (timeLimit c)
                              - (of_int (now - numberOf (startTime w)) :: rat) / 1000)
                     + of_int (max 0 (pairs c * 2 - moves w))\<rfloor>
         \<and> gameActive v' = (if matchedPairs w + 1 = pairs c then False else gameActive w)
         \<and> timerInterval v'
             = (if matchedPairs w + 1 = pairs c \<and> timerInterval w \<noteq> Some 0 then None
                else timerInterval w)
         \<and> timeLimitInterval v'
             = (if matchedPairs w + 1 = pairs c \<and> timeLimitInterval w \<noteq> Some 0 then None
                else timeLimitInterval w)
         \<and> played v' = (if matchedPairs w + 1 = pairs c
                         then played w @ [''match'', ''complete'']
                         else played w @ [''match''])))
   \<and> (symbol (heap w ! card1) \<noteq> symbol (heap w ! card2) \<longrightarrow>
       (\<exists>w1 v' delay. checkForMatch w = Done w1
         \<and> w1 = w\<lparr>timeouts := timeouts w @ [(nextHandle w, delay, FlipBack card1 card2)],
                  nextHandle := Suc (nextHandle w)\<rparr>
         \<and> (currentDifficulty w = ''easy'' \<longrightarrow> delay = 1000)
         \<and> (currentDifficulty w = ''medium'' \<longrightarrow> delay = 750)
         \<and> (currentDifficulty w = ''hard'' \<longrightarrow> delay = 600)
         \<and> step now (Timeout (nextHandle w)) w1 = Done v'
         \<and> timeouts v' = timeouts w
         \<and> isFlipped (heap v' ! card1) = False \<and> isFlipped (heap v' ! card2) = False
         \<and> flippedCards v' = []
         \<and> moves v' = moves w \<and> matchedPairs v' = matchedPairs w
         \<and> map isMatched (heap v') = map isMatched (heap w)
         \<and> map symbol (heap v') = map symbol (heap w)
         \<and> (\<forall>a. a \<noteq> card1 \<and> a \<noteq> card2 \<longrightarrow> heap v' ! a = heap w ! a)
         \<and> scoreText v' = scoreText w \<and> gameActive v' = gameActive w
         \<and> played v' = played w))
   \<and> (map_of (timeouts v) h = Some (d, MatchReveal card1 card2)
        \<and> card1 < length (heap v) \<and> card2 < length (heap v)
        \<and> difficultyConfigs (currentDifficulty v) = Own c' \<and> leaderboard v = Entries lb'
      \<longrightarrow> (\<exists>v'. step now (Timeout h) v = Done v'
             \<and> map_of (timeouts v') h = None
             \<and> isMatched (heap v' ! card1) \<and> isMatched (heap v' ! card2)
             \<and> matchedPairs v' = matchedPairs v + 1
             \<and> flippedCards v' = []
             \<and> moves v' = moves v
             \<and> scoreText v'
                 = Num \<lfloor>of_int ((matchedPairs v + 1) * 100)
                         + max 0 (of_int (timeLimit c')
                                  - (of_int (now - numberOf (startTime v)) :: rat) / 1000)
                         + of_int (max 0 (pairs c' * 2 - moves v))\<rfloor>
             \<and> gameActive v'
                 = (if matchedPairs v + 1 = pairs c' then False else gameActive v)))
   \<and> (map_of (timeouts v) h = Some (d, FlipBack card1 card2)
        \<and> card1 < length (heap v) \<and> card2 < length (heap v)
      \<longrightarrow> (\<exists>v'. step now (Timeout h) v = Done v'
             \<and> map_of (timeouts v') h = None
             \<and> isFlipped (heap v' ! card1) = False \<and> isFlipped (heap v' ! card2) = False
             \<and> flippedCards v' = []
             \<and> moves v' = moves v \<and> matchedPairs v' = matchedPairs v
             \<and> map isMatched (heap v') = map isMatched (heap v)))"
proof -
  let ?h = "nextHandle w"
  note fresh = fresh_timeout [OF assms(6)]
  have removed: "map_of (filter (\<lambda>(k, d). k \<noteq> h) ts) h = None" for ts :: "(nat \<times> int \<times> callback) list"
    by (induction ts) auto
  have match: "\<exists>w1 v'. checkForMatch w = Done w1
         \<and> w1 = w\<lparr>played := played w @ [''match''],
                  timeouts := timeouts w @ [(nextHandle w, 500, MatchReveal card1 card2)],
                  nextHandle := Suc (nextHandle w)\<rparr>
         \<and> step now (Timeout (nextHandle w)) w1 = Done v'
         \<and> timeouts v' = timeouts w
         \<and> isMatched (heap v' ! card1) \<and> isMatched (heap v' ! card2)
         \<and> map symbol (heap v') = map symbol (heap w)
         \<and> map isFlipped (heap v') = map isFlipped (heap w)
         \<and> (\<forall>a. a \<noteq> card1 \<and> a \<noteq> card2 \<longrightarrow> heap v' ! a = heap w ! a)
         \<and> matchedPairs v' = matchedPairs w + 1
         \<and> flippedCards v' = []
         \<and> moves v' = moves w
         \<and> scoreText v'
             = Num \<lfloor>of_int ((matchedPairs w + 1) * 100)
                     + max 0 (of_int (timeLimit c)
                              - (of_int (now - numberOf (startTime w)) :: rat) / 1000)
                     + of_int (max 0 (pairs c * 2 - moves w))\<rfloor>
         \<and> gameActive v' = (if matchedPairs w + 1 = pairs c then False else gameActive w)
         \<and> timerInterval v'
             = (if matchedPairs w + 1 = pairs c \<and> timerInterval w \<noteq> Some 0 then None
                else timerInterval w)
         \<and> timeLimitInterval v'
             = (if matchedPairs w + 1 = pairs c \<and> timeLimitInterval w \<noteq> Some 0 then None
                else timeLimitInterval w)
         \<and> played v' = (if matchedPairs w + 1 = pairs c
                         then played w @ [''match'', ''complete'']
                         else played w @ [''match''])"
    if same: "symbol (heap w ! card1) = symbol (heap w ! card2)"
  proof -
    define w1 where "w1 = w\<lparr>played := played w @ [''match''],
                  timeouts := timeouts w @ [(nextHandle w, 500, MatchReveal card1 card2)],
                  nextHandle := Suc (nextHandle w)\<rparr>"
    define v0 where "v0 = w1\<lparr>timeouts := timeouts w\<rparr>"
    have check: "checkForMatch w = Done w1"
      using assms(1-3) same
      by (simp add: checkForMatch_def setTimeout_def playSound_def w1_def)
    have fire: "step now (Timeout ?h) w1 = matchReveal now card1 card2 v0"
      using fresh [of "(500, MatchReveal card1 card2)"]
      by (simp add: step_def runCallback_def w1_def v0_def)
    have v0: "difficultyConfigs (currentDifficulty v0) = Own c"
      "card1 < length (heap v0)" "card2 < length (heap v0)" "leaderboard v0 = Entries lb"
      using assms(2-5) by (simp_all add: v0_def w1_def)
    have same_fields: "heap v0 = heap w" "matchedPairs v0 = matchedPairs w"
      "moves v0 = moves w" "startTime v0 = startTime w" "gameActive v0 = gameActive w"
      "timerInterval v0 = timerInterval w" "timeLimitInterval v0 = timeLimitInterval w"
      "timeouts v0 = timeouts w" "played v0 = played w @ [''match'']"
      by (simp_all add: v0_def w1_def)
    note reveal = done_stateOf [OF matchReveal_effect [OF v0, of now], unfolded same_fields]
    from reveal check fire w1_def show ?thesis
      apply -
      apply (rule exI [of _ w1], rule exI [of _ "stateOf (matchReveal now card1 card2 v0)"])
      apply simp
      done
  qed
  have differ: "\<exists>w1 v' delay. checkForMatch w = Done w1
         \<and> w1 = w\<lparr>timeouts := timeouts w @ [(nextHandle w, delay, FlipBack card1 card2)],
                  nextHandle := Suc (nextHandle w)\<rparr>
         \<and> (currentDifficulty w = ''easy'' \<longrightarrow> delay = 1000)
         \<and> (currentDifficulty w = ''medium'' \<longrightarrow> delay = 750)
         \<and> (currentDifficulty w = ''hard'' \<longrightarrow> delay = 600)
         \<and> step now (Timeout (nextHandle w)) w1 = Done v'
         \<and> timeouts v' = timeouts w
         \<and> isFlipped (heap v' ! card1) = False \<and> isFlipped (heap v' ! card2) = False
         \<and> flippedCards v' = []
         \<and> moves v' = moves w \<and> matchedPairs v' = matchedPairs w
         \<and> map isMatched (heap v') = map isMatched (heap w)
         \<and> map symbol (heap v') = map symbol (heap w)
         \<and> (\<forall>a. a \<noteq> card1 \<and> a \<noteq> card2 \<longrightarrow> heap v' ! a = heap w ! a)
         \<and> scoreText v' = scoreText w \<and> gameActive v' = gameActive w
         \<and> played v' = played w"
    if other: "symbol (heap w ! card1) \<noteq> symbol (heap w ! card2)"
  proof -
    define delay :: int where "delay = (if currentDifficulty w = ''easy'' then 1000
                               else if currentDifficulty w = ''hard'' then 600 else 750)"
    define w1 where "w1 = w\<lparr>timeouts := timeouts w @ [(nextHandle w, delay, FlipBack card1 card2)],
                  nextHandle := Suc (nextHandle w)\<rparr>"
    define v0 where "v0 = w1\<lparr>timeouts := timeouts w\<rparr>"
    have check: "checkForMatch w = Done w1"
      using assms(1-3) other
      by (simp add: checkForMatch_def setTimeout_def flipBackDelay_def w1_def delay_def)
    have fire: "step now (Timeout ?h) w1 = Done (flipBack card1 card2 v0)"
      using fresh [of "(delay, FlipBack card1 card2)"]
      by (simp add: step_def runCallback_def w1_def v0_def)
    have v0: "card1 < length (heap v0)" "card2 < length (heap v0)"
      using assms(2,3) by (simp_all add: v0_def w1_def)
    have same_fields: "heap v0 = heap w" "matchedPairs v0 = matchedPairs w"
      "moves v0 = moves w" "gameActive v0 = gameActive w" "scoreText v0 = scoreText w"
      "timeouts v0 = timeouts w" "played v0 = played w"
      by (simp_all add: v0_def w1_def)
    have delays: "currentDifficulty w = ''easy'' \<longrightarrow> delay = 1000"
      "currentDifficulty w = ''medium'' \<longrightarrow> delay = 750"
      "currentDifficulty w = ''hard'' \<longrightarrow> delay = 600"
      by (simp_all add: delay_def)
    from flipBack_effect [OF v0, unfolded same_fields] check fire delays w1_def show ?thesis
      apply -
      apply (rule exI [of _ w1], rule exI [of _ "flipBack card1 card2 v0"],
          rule exI [of _ delay])
      apply simp
      done
  qed
  have later_match: "\<exists>v'. step now (Timeout h) v = Done v'
             \<and> map_of (timeouts v') h = None
             \<and> isMatched (heap v' ! card1) \<and> isMatched (heap v' ! card2)
             \<and> matchedPairs v' = matchedPairs v + 1
             \<and> flippedCards v' = []
             \<and> moves v' = moves v
             \<and> scoreText v'
                 = Num \<lfloor>of_int ((matchedPairs v + 1) * 100)
                         + max 0 (of_int (timeLimit c')
                                  - (of_int (now - numberOf (startTime v)) :: rat) / 1000)
                         + of_int (max 0 (pairs c' * 2 - moves v))\<rfloor>
             \<and> gameActive v'
                 = (if matchedPairs v + 1 = pairs c' then False else gameActive v)"
    if pending: "map_of (timeouts v) h = Some (d, MatchReveal card1 card2)"
      and there: "card1 < length (heap v)" "card2 < length (heap v)"
      and conf: "difficultyConfigs (currentDifficulty v) = Own c'"
      and board: "leaderboard v = Entries lb'"
  proof -
    define v0 where "v0 = v\<lparr>timeouts := filter (\<lambda>(k, d). k \<noteq> h) (timeouts v)\<rparr>"
    have fire: "step now (Timeout h) v = matchReveal now card1 card2 v0"
      using pending by (simp add: step_def runCallback_def v0_def)
    have v0: "difficultyConfigs (currentDifficulty v0) = Own c'"
      "card1 < length (heap v0)" "card2 < length (heap v0)" "leaderboard v0 = Entries lb'"
      using there conf board by (simp_all add: v0_def)
    have same_fields: "matchedPairs v0 = matchedPairs v"
      "moves v0 = moves v" "startTime v0 = startTime v" "gameActive v0 = gameActive v"
      by (simp_all add: v0_def)
    have gone: "map_of (timeouts v0) h = None"
      by (simp add: v0_def removed)
    note reveal = done_stateOf [OF matchReveal_effect [OF v0, of now], unfolded same_fields]
    have "timeouts (stateOf (matchReveal now card1 card2 v0)) = timeouts v0"
      using reveal by simp
    with reveal fire gone show ?thesis
      by (intro exI [of _ "stateOf (matchReveal now card1 card2 v0)"]) simp
  qed
  have later_differ: "\<exists>v'. step now (Timeout h) v = Done v'
             \<and> map_of (timeouts v') h = None
             \<and> isFlipped (heap v' ! card1) = False \<and> isFlipped (heap v' ! card2) = False
             \<and> flippedCards v' = []
             \<and> moves v' = moves v \<and> matchedPairs v' = matchedPairs v
             \<and> map isMatched (heap v') = map isMatched (heap v)"
    if pending: "map_of (timeouts v) h = Some (d, FlipBack card1 card2)"
      and there: "card1 < length (heap v)" "card2 < length (heap v)"
  proof -
    define v0 where "v0 = v\<lparr>timeouts := filter (\<lambda>(k, d). k \<noteq> h) (timeouts v)\<rparr>"
    have fire: "step now (Timeout h) v = Done (flipBack card1 card2 v0)"
      using pending by (simp add: step_def runCallback_def v0_def)
    have v0: "card1 < length (heap v0)" "card2 < length (heap v0)"
      using there by (simp_all add: v0_def)
    have same_fields: "heap v0 = heap v" "matchedPairs v0 = matchedPairs v"
      "moves v0 = moves v" "timeouts v0 = filter (\<lambda>(k, d). k \<noteq> h) (timeouts v)"
      by (simp_all add: v0_def)
    from flipBack_effect [OF v0] fire show ?thesis
      unfolding same_fields
      by (intro exI [of _ "flipBack card1 card2 v0"] conjI) (simp_all add: removed)
  qed
  from match differ later_match later_differ show ?thesis
    by (intro conjI impI) blast+
qed

lemma lastPairUp_value:
  "lastPairUp =
     \<lparr>heap =
        [\<lparr>cid = 0, symbol = Some 127919, isFlipped = True, isMatched = True\<rparr>,
         \<lparr>cid = 1, symbol = Some 127919, isFlipped = True, isMatched = True\<rparr>,
         \<lparr>cid = 2, symbol = Some 127922, isFlipped = True, isMatched = True\<rparr>,
         \<lparr>cid = 3, symbol = Some 127922, isFlipped = True, isMatched = True\<rparr>,
         \<lparr>cid = 4, symbol = Some 127914, isFlipped = True, isMatched = True\<rparr>,
         \<lparr>cid = 5, symbol = Some 127914, isFlipped = True, isMatched = True\<rparr>,
         \<lparr>cid = 6, symbol = Some 127912, isFlipped = True, isMatched = True\<rparr>,
         \<lparr>cid = 7, symbol = Some 127912, isFlipped = True, isMatched = True\<rparr>,
         \<lparr>cid = 8, symbol = Some 127917, isFlipped = True, isMatched = True\<rparr>,
         \<lparr>cid = 9, symbol = Some 127917, isFlipped = True, isMatched = True\<rparr>,
         \<lparr>cid = 10, symbol = Some 127918, isFlipped = True, isMatched = True\<rparr>,
         \<lparr>cid = 11, symbol = Some 127918, isFlipped = True, isMatched = True\<rparr>,
         \<lparr>cid = 12, symbol = Some 127925, isFlipped = True, isMatched = True\<rparr>,
         \<lparr>cid = 13, symbol = Some 127925, isFlipped = True, isMatched = True\<rparr>,
         \<lparr>cid = 14, symbol = Some 127928, isFlipped = True, isMatched = False\<rparr>,
         \<lparr>cid = 15, symbol = Some 127928, isFlipped = True, isMatched = False\<rparr>],
      cards = [0, 1, 2, 3, 4, 5, 6, 7, 8, 9, 10, 11, 12, 13, 14, 15],
      flippedCards = [14, 15], matchedPairs = 7, moves = 8,
      startTime = Some 1000, timerInterval = Some 1,
      gameActive = True, gamePaused = False, pauseStartTime = None,
      totalPauseTime = 0, currentDifficulty = ''medium'',
      timeLimit_cur = Num 240, timeLimitInterval = Some 2,
      leaderboard = Entries [], timerText = (0, 0), movesText = 8,
      scoreText = Num 935, storage = None,
      intervals = [(1, TimerTicker), (2, LimitTicker)],
      timeouts = [(10, 500, MatchReveal 14 15)],
      nextHandle = 11,
      played =
        [''flip'', ''flip'', ''match'', ''flip'', ''flip'', ''match'',
         ''flip'', ''flip'', ''match'', ''flip'', ''flip'', ''match'',
         ''flip'', ''flip'', ''match'', ''flip'', ''flip'', ''match'',
         ''flip'', ''flip'', ''match'', ''flip'', ''flip'', ''match'']\<rparr>"
  by (simp add: lastPairUp_def engine_defs)

lemma pairAtCheck_fields:
  "flippedCards pairAtCheck = [0, 1]" "0 < length (heap pairAtCheck)"
  "1 < length (heap pairAtCheck)"
  "difficultyConfigs (currentDifficulty pairAtCheck) = Own medium"
  "leaderboard pairAtCheck = Entries []"
  "nextHandle pairAtCheck \<notin> fst ` set (timeouts pairAtCheck)"
  "symbol (heap pairAtCheck ! 0) = symbol (heap pairAtCheck ! 1)"
  "nextHandle pairAtCheck = 3" "matchedPairs pairAtCheck = 0" "moves pairAtCheck = 1"
  "startTime pairAtCheck = Some 1000" "gameActive pairAtCheck"
  "timeouts pairAtCheck = []" "played pairAtCheck = [''flip'', ''flip'']"
  by (simp_all add: pairAtCheck_def pairUp_def engine_defs)

lemma mixedAtCheck_fields:
  "flippedCards mixedAtCheck = [0, 2]" "0 < length (heap mixedAtCheck)"
  "2 < length (heap mixedAtCheck)"
  "difficultyConfigs (currentDifficulty mixedAtCheck) = Own medium"
  "leaderboard mixedAtCheck = Entries []"
  "nextHandle mixedAtCheck \<notin> fst ` set (timeouts mixedAtCheck)"
  "symbol (heap mixedAtCheck ! 0) \<noteq> symbol (heap mixedAtCheck ! 2)"
  "nextHandle mixedAtCheck = 3" "matchedPairs mixedAtCheck = 0" "moves mixedAtCheck = 1"
  "currentDifficulty mixedAtCheck = ''medium''"
  "timeouts mixedAtCheck = []" "played mixedAtCheck = [''flip'', ''flip'']"
  by (simp_all add: mixedAtCheck_def mixedUp_def engine_defs)

lemma lastPairAtCheck_fields:
  "flippedCards lastPairAtCheck = [14, 15]" "14 < length (heap lastPairAtCheck)"
  "15 < length (heap lastPairAtCheck)"
  "difficultyConfigs (currentDifficulty lastPairAtCheck) = Own medium"
  "leaderboard lastPairAtCheck = Entries []"
  "nextHandle lastPairAtCheck \<notin> fst ` set (timeouts lastPairAtCheck)"
  "symbol (heap lastPairAtCheck ! 14) = symbol (heap lastPairAtCheck ! 15)"
  "nextHandle lastPairAtCheck = 10" "matchedPairs lastPairAtCheck = 7"
  "gameActive lastPairAtCheck" "timerInterval lastPairAtCheck = Some 1"
  "timeLimitInterval lastPairAtCheck = Some 2"
  by (simp_all add: lastPairAtCheck_def lastPairUp_value difficultyConfigs_def)

lemma checkForMatch_at_check:
  "step 2000 (Flip 1) oneCardUp = checkForMatch pairAtCheck"
  "checkForMatch pairAtCheck = Done pairUp"
  "step 2000 (Flip 2) oneCardUp = checkForMatch mixedAtCheck"
  "checkForMatch mixedAtCheck = Done mixedUp"
  "checkForMatch lastPairAtCheck = Done lastPairUp"
  "timeouts pairUp = [(3, 500, MatchReveal 0 1)]"
  "played pairUp = [''flip'', ''flip'', ''match'']"
  "timeouts mixedUp = [(3, 750, FlipBack 0 2)]"
  "played mixedUp = [''flip'', ''flip'']"
  by (simp_all add: pairAtCheck_def mixedAtCheck_def lastPairAtCheck_def lastPairUp_value
      pairUp_def mixedUp_def oneCardUp_def engine_defs)

lemma paused_while_pending:
  "map_of (timeouts (run [(2100, Pause)] pairUp)) 3 = Some (500, MatchReveal 0 1)"
  "0 < length (heap (run [(2100, Pause)] pairUp))"
  "1 < length (heap (run [(2100, Pause)] pairUp))"
  "difficultyConfigs (currentDifficulty (run [(2100, Pause)] pairUp)) = Own medium"
  "leaderboard (run [(2100, Pause)] pairUp) = Entries []"
  "matchedPairs (run [(2100, Pause)] pairUp) = 0"
  "gamePaused (run [(2100, Pause)] pairUp)"
  by (simp_all add: pairUp_def engine_defs)

theorem checkForMatch_evaluates_pair_witness:
  "flippedCards pairAtCheck = [0, 1]
   \<and> 0 < length (heap pairAtCheck) \<and> 1 < length (heap pairAtCheck)
   \<and> difficultyConfigs (currentDifficulty pairAtCheck) = Own medium
   \<and> leaderboard pairAtCheck = Entries []
   \<and> nextHandle pairAtCheck \<notin> fst ` set (timeouts pairAtCheck)
   \<and> symbol (heap pairAtCheck ! 0) = symbol (heap pairAtCheck ! 1)
   \<and> step 2000 (Flip 1) oneCardUp = checkForMatch pairAtCheck
   \<and> checkForMatch pairAtCheck = Done pairUp
   \<and> timeouts pairUp = [(3, 500, MatchReveal 0 1)]
   \<and> played pairUp = [''flip'', ''flip'', ''match'']
   \<and> (\<exists>v'. step 2500 (Timeout 3) pairUp = Done v'
         \<and> timeouts v' = []
         \<and> isMatched (heap v' ! 0) \<and> isMatched (heap v' ! 1)
         \<and> matchedPairs v' = 1 \<and> flippedCards v' = [] \<and> moves v' = 1
         \<and> scoreText v' = Num 353 \<and> gameActive v'
         \<and> played v' = [''flip'', ''flip'', ''match''])
   \<and> (\<exists>v'. step 2500 (Timeout 3) (run [(2100, Pause)] pairUp) = Done v'
         \<and> isMatched (heap v' ! 0) \<and> isMatched (heap v' ! 1)
         \<and> matchedPairs v' = 1 \<and> flippedCards v' = [])
   \<and> flippedCards mixedAtCheck = [0, 2]
   \<and> symbol (heap mixedAtCheck ! 0) \<noteq> symbol (heap mixedAtCheck ! 2)
   \<and> step 2000 (Flip 2) oneCardUp = checkForMatch mixedAtCheck
   \<and> checkForMatch mixedAtCheck = Done mixedUp
   \<and> timeouts mixedUp = [(3, 750, FlipBack 0 2)]
   \<and> played mixedUp = [''flip'', ''flip'']
   \<and> (\<exists>v'. step 2750 (Timeout 3) mixedUp = Done v'
         \<and> timeouts v' = []
         \<and> isFlipped (heap v' ! 0) = False \<and> isFlipped (heap v' ! 2) = False
         \<and> flippedCards v' = [] \<and> moves v' = 1 \<and> matchedPairs v' = 0
         \<and> played v' = [''flip'', ''flip''])
   \<and> flippedCards lastPairAtCheck = [14, 15] \<and> matchedPairs lastPairAtCheck = 7
   \<and> pairs medium = 8
   \<and> checkForMatch lastPairAtCheck = Done lastPairUp
   \<and> (\<exists>v'. step 16500 (Timeout 10) lastPairUp = Done v'
         \<and> isMatched (heap v' ! 14) \<and> isMatched (heap v' ! 15)
         \<and> matchedPairs v' = 8 \<and> flippedCards v' = []
         \<and> gameActive v' = False
         \<and> timerInterval v' = None \<and> timeLimitInterval v' = None)"
proof -
  note p = pairAtCheck_fields
  note m = mixedAtCheck_fields
  note l = lastPairAtCheck_fields
  note q = paused_while_pending
  note e = checkForMatch_at_check
  have eight: "pairs medium = 8" "timeLimit medium = 240"
    by (simp_all add: medium_def)
  note first = checkForMatch_evaluates_pair [OF p(1-6),
      where now = 2500 and v = "run [(2100, Pause)] pairUp" and h = 3 and d = 500
        and c' = medium and lb' = "[]"]
  note mixed = checkForMatch_evaluates_pair [OF m(1-6), where now = 2750]
  note last = checkForMatch_evaluates_pair [OF l(1-6), where now = 16500]
  have "\<exists>v'. step 2500 (Timeout 3) pairUp = Done v'
         \<and> timeouts v' = []
         \<and> isMatched (heap v' ! 0) \<and> isMatched (heap v' ! 1)
         \<and> matchedPairs v' = 1 \<and> flippedCards v' = [] \<and> moves v' = 1
         \<and> scoreText v' = Num 353 \<and> gameActive v'
         \<and> played v' = [''flip'', ''flip'', ''match'']"
  proof -
    from first [THEN conjunct1, rule_format, OF p(7)]
    obtain w1 v' where
      "checkForMatch pairAtCheck = Done w1"
      and "step 2500 (Timeout (nextHandle pairAtCheck)) w1 = Done v'"
      and "timeouts v' = timeouts pairAtCheck"
      and "isMatched (heap v' ! 0)" and "isMatched (heap v' ! 1)"
      and "matchedPairs v' = matchedPairs pairAtCheck + 1"
      and "flippedCards v' = []"
      and "moves v' = moves pairAtCheck"
      and "scoreText v'
             = Num \<lfloor>of_int ((matchedPairs pairAtCheck + 1) * 100)
                     + max 0 (of_int (timeLimit medium)
                              - (of_int (2500 - numberOf (startTime pairAtCheck)) :: rat) / 1000)
                     + of_int (max 0 (pairs medium * 2 - moves pairAtCheck))\<rfloor>"
      and "gameActive v'
             = (if matchedPairs pairAtCheck + 1 = pairs medium then False
                else gameActive pairAtCheck)"
      and "played v' = (if matchedPairs pairAtCheck + 1 = pairs medium
                         then played pairAtCheck @ [''match'', ''complete'']
                         else played pairAtCheck @ [''match''])"
      by (elim exE conjE) (rule that; assumption)
    then show ?thesis
      by (intro exI [of _ v']) (simp add: e p eight numberOf_def)
  qed
  moreover have "\<exists>v'. step 2500 (Timeout 3) (run [(2100, Pause)] pairUp) = Done v'
         \<and> isMatched (heap v' ! 0) \<and> isMatched (heap v' ! 1)
         \<and> matchedPairs v' = 1 \<and> flippedCards v' = []"
  proof -
    from first [THEN conjunct2, THEN conjunct2, THEN conjunct1, rule_format] q(1-5)
    obtain v' where
      "step 2500 (Timeout 3) (run [(2100, Pause)] pairUp) = Done v'"
      and "isMatched (heap v' ! 0)" and "isMatched (heap v' ! 1)"
      and "matchedPairs v' = matchedPairs (run [(2100, Pause)] pairUp) + 1"
      and "flippedCards v' = []"
      by blast
    then show ?thesis
      by (intro exI [of _ v']) (simp add: q(6) del: run.simps)
  qed
  moreover have "\<exists>v'. step 2750 (Timeout 3) mixedUp = Done v'
         \<and> timeouts v' = []
         \<and> isFlipped (heap v' ! 0) = False \<and> isFlipped (heap v' ! 2) = False
         \<and> flippedCards v' = [] \<and> moves v' = 1 \<and> matchedPairs v' = 0
         \<and> played v' = [''flip'', ''flip'']"
  proof -
    from mixed [THEN conjunct2, THEN conjunct1, rule_format, OF m(7)]
    obtain w1 v' where
      "checkForMatch mixedAtCheck = Done w1"
      and "step 2750 (Timeout (nextHandle mixedAtCheck)) w1 = Done v'"
      and "timeouts v' = timeouts mixedAtCheck"
      and "isFlipped (heap v' ! 0) = False" and "isFlipped (heap v' ! 2) = False"
      and "flippedCards v' = []"
      and "moves v' = moves mixedAtCheck" and "matchedPairs v' = matchedPairs mixedAtCheck"
      and "played v' = played mixedAtCheck"
      by (elim exE conjE) (rule that; assumption)
    then show ?thesis
      by (intro exI [of _ v']) (simp add: e m)
  qed
  moreover have "\<exists>v'. step 16500 (Timeout 10) lastPairUp = Done v'
         \<and> isMatched (heap v' ! 14) \<and> isMatched (heap v' ! 15)
         \<and> matchedPairs v' = 8 \<and> flippedCards v' = []
         \<and> gameActive v' = False
         \<and> timerInterval v' = None \<and> timeLimitInterval v' = None"
  proof -
    from last [THEN conjunct1, rule_format, OF l(7)]
    obtain w1 v' where
      "checkForMatch lastPairAtCheck = Done w1"
      and "step 16500 (Timeout (nextHandle lastPairAtCheck)) w1 = Done v'"
      and "isMatched (heap v' ! 14)" and "isMatched (heap v' ! 15)"
      and "matchedPairs v' = matchedPairs lastPairAtCheck + 1"
      and "flippedCards v' = []"
      and "gameActive v'
             = (if matchedPairs lastPairAtCheck + 1 = pairs medium then False
                else gameActive lastPairAtCheck)"
      and "timerInterval v'
             = (if matchedPairs lastPairAtCheck + 1 = pairs medium
                   \<and> timerInterval lastPairAtCheck \<noteq> Some 0 then None
                else timerInterval lastPairAtCheck)"
      and "timeLimitInterval v'
             = (if matchedPairs lastPairAtCheck + 1 = pairs medium
                   \<and> timeLimitInterval lastPairAtCheck \<noteq> Some 0 then None
                else timeLimitInterval lastPairAtCheck)"
      by (elim exE conjE) (rule that; assumption)
    then show ?thesis
      by (intro exI [of _ v']) (simp add: e l eight)
  qed
  ultimately show ?thesis
    using p(1-7) m(1,7) l(1,9) e eight(1) by (intro conjI) assumption+
qed

subsection \<open>Pause and resume\<close>

lemma pause_resume_cycle:
  assumes "gameActive w" and "\<not> gamePaused w"
    and "difficultyConfigs (currentDifficulty w) = Own c" and "t1 \<noteq> 0"
  shows "\<exists>w'. resumeGame t2 (pauseGame t1 w) = Done w'
     \<and> totalPauseTime w' = totalPauseTime w + (t2 - t1)
     \<and> pauseStartTime w' = None
     \<and> moves w' = moves w \<and> matchedPairs w' = matchedPairs w
     \<and> gameActive w' \<and> \<not> gamePaused w'
     \<and> timeLimit_cur w' = Num (timeLimit c)"
  using assms
  by (simp add: resumeGame_def pauseGame_def startTimeLimit_def startTimer_def Let_def
      stopTimer_frame)

text \<open>
  Claim C7, at a running medium game whose countdown stands at 237 seconds: pausing
  at 4500 and resuming at 6500 adds 2000 ms to \<open>totalPauseTime\<close> and leaves the moves
  and the matched pairs alone, but the countdown is back at the full 240 seconds,
  because \<open>resumeGame\<close> restarts it with \<open>startTimeLimit\<close>, which assigns
  \<open>config.timeLimit\<close> again.
\<close>

theorem pause_resume_refills_countdown:
  "gameActive tickedGame \<and> gamePaused tickedGame = False
   \<and> timeLimit_cur tickedGame = Num 237
   \<and> timeLimit_cur (run [(4500, Pause)] tickedGame) = Num 237
   \<and> timeLimit_cur (run [(4500, Pause), (6500, Resume)] tickedGame) = Num 240
   \<and> totalPauseTime (run [(4500, Pause), (6500, Resume)] tickedGame)
       = totalPauseTime tickedGame + 2000
   \<and> moves (run [(4500, Pause), (6500, Resume)] tickedGame) = moves tickedGame
   \<and> matchedPairs (run [(4500, Pause), (6500, Resume)] tickedGame) = matchedPairs tickedGame"
  by (simp add: tickedGame_def engine_defs)

subsection \<open>The session invariant\<close>

text \<open>
  Of the three parts of the invariant, the bound on the face-up cards is kept by every
  operation, whether it returns or throws.
\<close>

lemma step_keeps_two_face_up:
  assumes "length (flippedCards w) \<le> 2"
  shows "length (flippedCards (stateOf (step now ev w))) \<le> 2"
proof (cases ev)
  case (Flip a)
  show ?thesis
  proof (cases "gameActive w")
    case True
    with assms Flip show ?thesis
      by (auto simp add: step_def flipCard_def checkForMatch_def setFlipped_def playSound_def
          updateMovesDisplay_def setTimeout_def Let_def split: list.splits)
  next
    case False
    with assms Flip show ?thesis
      by (auto simp add: step_def flipCard_def checkForMatch_def setFlipped_def playSound_def
          updateMovesDisplay_def setTimeout_def Let_def startGame_def startTimeLimit_def
          startTimer_def split: list.splits lookup.splits)
  qed
next
  case Pause
  with assms show ?thesis by (simp add: step_def pauseGame_def stopTimer_frame)
next
  case Resume
  with assms show ?thesis
    by (simp add: step_def resumeGame_def startTimeLimit_def startTimer_def Let_def
        split: lookup.splits option.splits)
next
  case (New rnd)
  then show ?thesis
    by (simp add: step_def newGame_def shuffleCards_def resetStats_frame Let_def
        split: lookup.splits)
next
  case Reset
  then show ?thesis by (simp add: step_def resetGame_def resetStats_frame)
next
  case (Change name rnd)
  then show ?thesis
    by (simp add: step_def changeDifficulty_def shuffleCards_def resetStats_frame Let_def
        split: lookup.splits)
next
  case (Interval h)
  with assms show ?thesis
    by (simp add: step_def timerTick_def limitTick_def endGame_frame Let_def
        split: option.splits ticker.splits)
next
  case (Timeout h)
  with assms show ?thesis
    by (auto simp add: step_def runCallback_def matchReveal_def flipBack_def updateScore_def
        setMatched_def setFlipped_def endGame_frame Let_def
        split: option.splits callback.splits lookup.splits)
qed

lemma reveal_of_last_pair_while_paused:
  assumes "gamePaused v" and "difficultyConfigs (currentDifficulty v) = Own c"
    and "matchedPairs v + 1 = pairs c"
  shows "gamePaused (stateOf (matchReveal now card1 card2 v))"
    and "gameActive (stateOf (matchReveal now card1 card2 v)) = False"
  using assms
  by (simp_all add: matchReveal_def updateScore_def setMatched_def Let_def endGame_frame
      endGame_stops)

text \<open>
  Claim C6, at a running medium game with seven pairs matched and the last pair just
  turned: the session satisfies the invariant; the player pauses while the reveal is
  pending; the reveal then runs, finds all eight pairs matched and calls \<open>endGame\<close>,
  which clears the active flag and leaves the pause flag set. The session is paused
  and not active.
\<close>

theorem endGame_leaves_session_paused:
  "length (flippedCards lastPairUp) = 2 \<and> matchedPairs lastPairUp = 7
   \<and> gameActive lastPairUp \<and> gamePaused lastPairUp = False
   \<and> timeouts lastPairUp = [(10, 500, MatchReveal 14 15)]
   \<and> gamePaused (run [(16100, Pause)] lastPairUp)
   \<and> gameActive (run [(16100, Pause)] lastPairUp)
   \<and> gamePaused (run [(16100, Pause), (16500, Timeout 10)] lastPairUp)
   \<and> gameActive (run [(16100, Pause), (16500, Timeout 10)] lastPairUp) = False
   \<and> matchedPairs (run [(16100, Pause), (16500, Timeout 10)] lastPairUp) = 8"
  by (simp add: lastPairUp_value engine_defs)

end
